theory Spec2Isabelle
  imports Complex_Main "HOL-Library.Sublist"
begin

section \<open>Common data: errors, messages, rollouts\<close>

text \<open>
  A Go \<^verbatim>\<open>error\<close> value is represented by its message.  A run-time panic is not a
  returned error: it unwinds the caller, so it gets a constructor of its own.
  \<^verbatim>\<open>float64\<close> scores and weights are represented by \<^typ>\<open>real\<close>, that is, by finite
  values with exact arithmetic.
\<close>

datatype error = GoError string | GoPanic string

record Message =
  Role :: string
  Content :: string

record Rollout =
  Messages :: "Message list"
  Response :: string
  Score :: real

section \<open>String functions of the Go library\<close>

text \<open>
  A Go string is a sequence of bytes, here a \<^typ>\<open>string\<close>.
  \<^verbatim>\<open>strings.TrimSpace\<close> removes leading and trailing Unicode white space.  On the UTF-8
  bytes these are the six ASCII characters tab, line feed, vertical tab, form feed,
  carriage return and space, and the encodings of U+0085, U+00A0, U+1680, U+2000 to
  U+200A, U+2028, U+2029, U+202F, U+205F and U+3000.
\<close>

definition spaceRunes :: "string list" where
  "spaceRunes =
     map (\<lambda>c. [c]) [CHR 0x09, CHR 0x0A, CHR 0x0B, CHR 0x0C, CHR 0x0D, CHR 0x20] @
     [[CHR 0xC2, CHR 0x85], [CHR 0xC2, CHR 0xA0], [CHR 0xE1, CHR 0x9A, CHR 0x80]] @
     map (\<lambda>c. [CHR 0xE2, CHR 0x80, c])
       [CHR 0x80, CHR 0x81, CHR 0x82, CHR 0x83, CHR 0x84, CHR 0x85, CHR 0x86, CHR 0x87,
        CHR 0x88, CHR 0x89, CHR 0x8A, CHR 0xA8, CHR 0xA9, CHR 0xAF] @
     [[CHR 0xE2, CHR 0x81, CHR 0x9F], [CHR 0xE3, CHR 0x80, CHR 0x80]]"

text \<open>The byte length of the white-space rune a string starts, or ends, with.\<close>

definition leadingSpace :: "string \<Rightarrow> nat option" where
  "leadingSpace s = map_option length (find (\<lambda>r. prefix r s) spaceRunes)"

definition trailingSpace :: "string \<Rightarrow> nat option" where
  "trailingSpace s = map_option length (find (\<lambda>r. suffix r s) spaceRunes)"

function TrimLeft :: "string \<Rightarrow> string" where
  "TrimLeft s = (case leadingSpace s of None \<Rightarrow> s | Some n \<Rightarrow> TrimLeft (drop n s))"
  by pat_completeness auto
termination
  by (relation "measure length")
    (auto simp: leadingSpace_def spaceRunes_def split: if_splits dest: prefix_length_le)

function TrimRight :: "string \<Rightarrow> string" where
  "TrimRight s =
     (case trailingSpace s of None \<Rightarrow> s | Some n \<Rightarrow> TrimRight (take (length s - n) s))"
  by pat_completeness auto
termination
  by (relation "measure length")
    (auto simp: trailingSpace_def spaceRunes_def split: if_splits dest: suffix_length_le)

declare TrimLeft.simps [simp del] TrimRight.simps [simp del]

definition TrimSpace :: "string \<Rightarrow> string" where
  "TrimSpace s = TrimRight (TrimLeft s)"

text \<open>\<^verbatim>\<open>strings.Contains\<close> and \<^verbatim>\<open>strings.HasPrefix\<close>.\<close>

definition Contains :: "string \<Rightarrow> string \<Rightarrow> bool" where
  "Contains s substr = sublist substr s"

definition HasPrefix :: "string \<Rightarrow> string \<Rightarrow> bool" where
  "HasPrefix s pre = prefix pre s"

text \<open>
  \<^verbatim>\<open>strings.Split(s, sep)\<close> for a non-empty separator: the pieces between the
  non-overlapping occurrences of \<open>sep\<close>, found from the left.  \<open>cur\<close> holds the
  current piece, reversed.
\<close>

function Split_from :: "string \<Rightarrow> string \<Rightarrow> string \<Rightarrow> string list" where
  "Split_from sep cur s =
     (if s = [] then [rev cur]
      else if sep \<noteq> [] \<and> prefix sep s then rev cur # Split_from sep [] (drop (length sep) s)
      else Split_from sep (hd s # cur) (tl s))"
  by pat_completeness auto
termination
  by (relation "measure (\<lambda>(sep, cur, s). length s)") auto

declare Split_from.simps [simp del]

definition Split :: "string \<Rightarrow> string \<Rightarrow> string list" where
  "Split s sep = Split_from sep [] s"

text \<open>
  \<^verbatim>\<open>strings.SplitN(s, sep, 2)\<close> for a one-character separator: the text before the
  first occurrence and the text after it, or the string alone when there is none.
\<close>

definition SplitN2 :: "string \<Rightarrow> char \<Rightarrow> string list" where
  "SplitN2 s sep =
     (if sep \<in> set s then [takeWhile (\<lambda>c. c \<noteq> sep) s, tl (dropWhile (\<lambda>c. c \<noteq> sep) s)]
      else [s])"

text \<open>\<^verbatim>\<open>strings.ReplaceAll(s, old, "")\<close> for a one-character \<open>old\<close>.\<close>

definition RemoveAll :: "char \<Rightarrow> string \<Rightarrow> string" where
  "RemoveAll c s = filter (\<lambda>x. x \<noteq> c) s"

section \<open>The regular expressions of the tagged parsers\<close>

text \<open>
  The parsers compile \<^verbatim>\<open>(?s)<alt>\s*(.*?)\s*</alt>\<close> for a tag name \<open>alt\<close> and call
  \<^verbatim>\<open>FindStringSubmatch\<close>.  Go's regexp package returns the leftmost match, and among the
  matches that start there the one a backtracking search finds first.  The patterns
  are sequences of three kinds of item: a literal, the greedy \<^verbatim>\<open>\s*\<close>, and the lazy
  capturing group \<^verbatim>\<open>(.*?)\<close>, which under \<^verbatim>\<open>(?s)\<close> takes any character.  The class
  \<^verbatim>\<open>\s\<close> is tab, line feed, form feed, carriage return and space.  The matcher of
  the library steps through the text character by character, the one below byte by
  byte; since the literals and the class are ASCII and no byte of a longer UTF-8
  character is, both find the same match and the same group.
\<close>

datatype re_item = Lit string | SpaceStar | LazyAnyGroup

definition re_space :: "char \<Rightarrow> bool" where
  "re_space c = (c \<in> {CHR 0x09, CHR 0x0A, CHR 0x0C, CHR 0x0D, CHR 0x20})"

text \<open>
  \<open>re_match p s\<close> matches the pattern at the start of \<open>s\<close>; the result is the text of
  the capturing group.  The greedy star tries the longer run first, the lazy group the
  shorter text first.
\<close>

function re_match :: "re_item list \<Rightarrow> string \<Rightarrow> string option" where
  "re_match [] s = Some []"
| "re_match (Lit l # p) s = (if prefix l s then re_match p (drop (length l) s) else None)"
| "re_match (SpaceStar # p) [] = re_match p []"
| "re_match (SpaceStar # p) (c # cs) =
     (if re_space c then
        (case re_match (SpaceStar # p) cs of Some g \<Rightarrow> Some g | None \<Rightarrow> re_match p (c # cs))
      else re_match p (c # cs))"
| "re_match (LazyAnyGroup # p) [] = (case re_match p [] of Some g \<Rightarrow> Some [] | None \<Rightarrow> None)"
| "re_match (LazyAnyGroup # p) (c # cs) =
     (case re_match p (c # cs) of
        Some g \<Rightarrow> Some []
      | None \<Rightarrow> map_option (\<lambda>g. c # g) (re_match (LazyAnyGroup # p) cs))"
  by pat_completeness auto
termination
  by (relation "measures [\<lambda>(p, s). length s, \<lambda>(p, s). length p]") auto

text \<open>\<^verbatim>\<open>FindStringSubmatch\<close>: the first start position with a match; the group's text.\<close>

fun FindStringSubmatch :: "re_item list \<Rightarrow> string \<Rightarrow> string option" where
  "FindStringSubmatch p [] = re_match p []"
| "FindStringSubmatch p (c # cs) =
     (case re_match p (c # cs) of Some g \<Rightarrow> Some g | None \<Rightarrow> FindStringSubmatch p cs)"

text \<open>
  A tag name is interpolated into the pattern as it is.  A name of ASCII characters
  none of which is a metacharacter of the regexp syntax stands for itself, and the
  pattern compiles.  Any other name either fails to compile or denotes another
  pattern; the model covers neither case and answers such a name with an error, so
  every statement below about parsing is about plain names.
\<close>

definition plainTag :: "string \<Rightarrow> bool" where
  "plainTag alt =
     list_all (\<lambda>c. of_char c < (128::nat) \<and> c \<notin> set (CHR 0x5C # ''.+*?()|[]{}^$'')) alt"

definition tagPattern :: "string \<Rightarrow> re_item list" where
  "tagPattern alt =
     [Lit (''<'' @ alt @ ''>''), SpaceStar, LazyAnyGroup, SpaceStar, Lit (''</'' @ alt @ ''>'')]"

definition regexp_Compile :: "string \<Rightarrow> error + re_item list" where
  "regexp_Compile alt =
     (if plainTag alt then Inr (tagPattern alt)
      else Inl (GoError (''regexp: tag name outside the model: '' @ alt)))"

section \<open>The tagged-field parser (pkg/parsers/xml\_parser.go)\<close>

record XMLField =
  Canonical :: string
  Alternatives :: "string list"

record XMLParser =
  parserFields :: "XMLField list"
  answerField :: string

text \<open>A field declaration is an \<^verbatim>\<open>interface{}\<close>: a string, a string slice, or anything else.\<close>

datatype field_decl = FieldName string | FieldAlternatives "string list" | FieldOther

fun NewXMLParser_fields ::
  "string list \<Rightarrow> XMLField list \<Rightarrow> field_decl list \<Rightarrow> error + XMLField list"
where
  "NewXMLParser_fields seen acc [] = Inr acc"
| "NewXMLParser_fields seen acc (field # rest) =
     (case (case field of
              FieldName f \<Rightarrow> Inr \<lparr>Canonical = f, Alternatives = [f]\<rparr>
            | FieldAlternatives f \<Rightarrow>
                (if length f = 0 then Inl (GoError ''field array cannot be empty'')
                 else Inr \<lparr>Canonical = hd f, Alternatives = f\<rparr>)
            | FieldOther \<Rightarrow> Inl (GoError ''each field must be a string or array of strings''))
      of
        Inl err \<Rightarrow> Inl err
      | Inr xmlField \<Rightarrow>
          if Canonical xmlField \<in> set seen
          then Inl (GoError (''duplicate field name: '' @ Canonical xmlField))
          else NewXMLParser_fields (Canonical xmlField # seen) (acc @ [xmlField]) rest)"

definition NewXMLParser :: "field_decl list \<Rightarrow> string \<Rightarrow> error + XMLParser" where
  "NewXMLParser decls answerField' =
     (case NewXMLParser_fields [] [] decls of
        Inl err \<Rightarrow> Inl err
      | Inr fs \<Rightarrow>
          Inr \<lparr>parserFields = fs,
               answerField = (if answerField' = [] then ''answer'' else answerField')\<rparr>)"

text \<open>
  \<^verbatim>\<open>ParsedXML.Fields\<close> is a map from tag name to content.  Reading a key that is not
  there gives the empty string, as indexing a Go map does.
\<close>

type_synonym Fields = "string \<rightharpoonup> string"

definition field :: "Fields \<Rightarrow> string \<Rightarrow> string" where
  "field m k = (case m k of None \<Rightarrow> [] | Some v \<Rightarrow> v)"

text \<open>The inner loop of \<^verbatim>\<open>ParseXML\<close>, over the alternatives of one field.\<close>

fun ParseXML_alternatives ::
  "string \<Rightarrow> bool \<Rightarrow> string list \<Rightarrow> Fields \<Rightarrow> error + Fields"
where
  "ParseXML_alternatives text strip [] result = Inr result"
| "ParseXML_alternatives text strip (alt # alts) result =
     (case regexp_Compile alt of
        Inl (GoError msg) \<Rightarrow> Inl (GoError (''failed to compile regex: '' @ msg))
      | Inl err \<Rightarrow> Inl err
      | Inr re \<Rightarrow>
          (case FindStringSubmatch re text of
             Some content \<Rightarrow>
               ParseXML_alternatives text strip alts
                 (result(alt \<mapsto> (if strip then TrimSpace content else content)))
           | None \<Rightarrow> ParseXML_alternatives text strip alts result))"

text \<open>The outer loop, over the declared fields.\<close>

fun ParseXML_fields :: "string \<Rightarrow> bool \<Rightarrow> XMLField list \<Rightarrow> Fields \<Rightarrow> error + Fields" where
  "ParseXML_fields text strip [] result = Inr result"
| "ParseXML_fields text strip (f # fs) result =
     (case ParseXML_alternatives text strip (Alternatives f) result of
        Inl err \<Rightarrow> Inl err
      | Inr result' \<Rightarrow> ParseXML_fields text strip fs result')"

definition ParseXML :: "XMLParser \<Rightarrow> string \<Rightarrow> bool \<Rightarrow> error + Fields" where
  "ParseXML p text strip = ParseXML_fields text strip (parserFields p) Map.empty"

definition XMLParser_Parse :: "XMLParser \<Rightarrow> string \<Rightarrow> error + string" where
  "XMLParser_Parse p response =
     (case ParseXML p response True of
        Inl err \<Rightarrow> Inl err
      | Inr parsed \<Rightarrow>
          (case parsed (answerField p) of Some answer \<Rightarrow> Inr answer | None \<Rightarrow> Inr []))"

text \<open>
  The \<^verbatim>\<open>Parser\<close> interface.  An environment stores a parser of any implementation and
  at one place asks whether it is the tagged-field parser.
\<close>

datatype Parser = XMLParserValue XMLParser | OtherParser "string \<Rightarrow> error + string"

fun Parse :: "Parser \<Rightarrow> string \<Rightarrow> error + string" where
  "Parse (XMLParserValue p) response = XMLParser_Parse p response"
| "Parse (OtherParser f) response = f response"

section \<open>Rubrics (pkg/rubrics)\<close>

type_synonym RewardFunc = "string \<Rightarrow> string \<Rightarrow> error + real"

text \<open>The \<^verbatim>\<open>Rubric\<close> interface: a value with its three methods.\<close>

record Rubric =
  GetRewardFuncs :: "RewardFunc list"
  GetRewardWeights :: "real list"
  ComputeReward :: "string \<Rightarrow> string \<Rightarrow> error + real"

record BaseRubric =
  rewardFuncs :: "RewardFunc list"
  rewardWeights :: "real list"

text \<open>
  The body of the \<^verbatim>\<open>range\<close> loop of \<^verbatim>\<open>BaseRubric.ComputeReward\<close>: \<open>i\<close> is the loop
  index, the pair is \<^verbatim>\<open>(totalReward, totalWeight)\<close>.  A function without a weight of
  its own gets weight 1.0; the first failing function ends the loop with its error.
\<close>

fun ComputeReward_loop ::
  "real list \<Rightarrow> string \<Rightarrow> string \<Rightarrow> nat \<Rightarrow> RewardFunc list \<Rightarrow> real \<times> real \<Rightarrow> error + real \<times> real"
where
  "ComputeReward_loop ws parsed groundTruth i [] acc = Inr acc"
| "ComputeReward_loop ws parsed groundTruth i (fn # fns) (totalReward, totalWeight) =
     (let weight = (if i < length ws then ws ! i else 1) in
      case fn parsed groundTruth of
        Inl err \<Rightarrow> Inl err
      | Inr reward \<Rightarrow>
          ComputeReward_loop ws parsed groundTruth (Suc i) fns
            (totalReward + reward * weight, totalWeight + weight))"

definition BaseRubric_ComputeReward :: "'a BaseRubric_scheme \<Rightarrow> string \<Rightarrow> string \<Rightarrow> error + real" where
  "BaseRubric_ComputeReward r parsed groundTruth =
     (if length (rewardFuncs r) = 0 then Inr 0
      else case ComputeReward_loop (rewardWeights r) parsed groundTruth 0 (rewardFuncs r) (0, 0) of
        Inl err \<Rightarrow> Inl err
      | Inr (totalReward, totalWeight) \<Rightarrow>
          if totalWeight > 0 then Inr (totalReward / totalWeight) else Inr 0)"

text \<open>A base rubric seen through the \<^verbatim>\<open>Rubric\<close> interface.\<close>

definition BaseRubric_Rubric :: "'a BaseRubric_scheme \<Rightarrow> Rubric" where
  "BaseRubric_Rubric r =
     \<lparr>GetRewardFuncs = rewardFuncs r, GetRewardWeights = rewardWeights r,
      ComputeReward = BaseRubric_ComputeReward r\<rparr>"

text \<open>\<^verbatim>\<open>NewBaseRubric\<close>: one function, exact match of the trimmed texts, with weight 1.0.\<close>

definition exactMatchReward :: RewardFunc where
  "exactMatchReward parsed groundTruth =
     (if TrimSpace parsed = TrimSpace groundTruth then Inr 1 else Inr 0)"

definition NewBaseRubric :: BaseRubric where
  "NewBaseRubric = \<lparr>rewardFuncs = [exactMatchReward], rewardWeights = [1]\<rparr>"

text \<open>
  \<^verbatim>\<open>MultiMetricRubric\<close> embeds a \<^verbatim>\<open>BaseRubric\<close> and adds the map of named metrics.
  \<^verbatim>\<open>NewMultiMetricRubric\<close> copies the rubric that \<^verbatim>\<open>NewBaseRubric\<close> returns.
\<close>

record MultiMetricRubric = BaseRubric +
  metrics :: "string \<rightharpoonup> RewardFunc"

definition NewMultiMetricRubric :: MultiMetricRubric where
  "NewMultiMetricRubric =
     \<lparr>rewardFuncs = rewardFuncs NewBaseRubric, rewardWeights = rewardWeights NewBaseRubric,
      metrics = Map.empty\<rparr>"

definition AddMetric ::
  "string \<Rightarrow> RewardFunc \<Rightarrow> real \<Rightarrow> 'a MultiMetricRubric_scheme \<Rightarrow> 'a MultiMetricRubric_scheme"
where
  "AddMetric name fn weight r =
     r\<lparr>metrics := (metrics r)(name \<mapsto> fn),
       rewardFuncs := rewardFuncs r @ [fn],
       rewardWeights := rewardWeights r @ [weight]\<rparr>"

subsection \<open>RubricGroup\<close>

record RubricGroup =
  rubrics :: "Rubric list"
  rubricNames :: "string list"
  mergeWeights :: bool

text \<open>
  The loop of \<^verbatim>\<open>RubricGroup.ComputeReward\<close>; the pair is \<^verbatim>\<open>(totalScore, totalWeight)\<close>.
  A member that fails is passed over.  A member's weight is the sum of its weights,
  added up from the left, and 1.0 when it has no weights at all.
\<close>

fun RubricGroup_loop :: "string \<Rightarrow> string \<Rightarrow> Rubric list \<Rightarrow> real \<times> real \<Rightarrow> real \<times> real" where
  "RubricGroup_loop parsed groundTruth [] acc = acc"
| "RubricGroup_loop parsed groundTruth (rubric # rest) (totalScore, totalWeight) =
     (case ComputeReward rubric parsed groundTruth of
        Inl err \<Rightarrow> RubricGroup_loop parsed groundTruth rest (totalScore, totalWeight)
      | Inr score \<Rightarrow>
          (let rubricWeights = GetRewardWeights rubric;
               rubricWeight = foldl (+) 0 rubricWeights;
               rubricWeight' =
                 (if rubricWeight = 0 \<and> length rubricWeights = 0 then 1 else rubricWeight)
           in RubricGroup_loop parsed groundTruth rest
                (totalScore + score * rubricWeight', totalWeight + rubricWeight')))"

definition RubricGroup_ComputeReward :: "RubricGroup \<Rightarrow> string \<Rightarrow> string \<Rightarrow> error + real" where
  "RubricGroup_ComputeReward r parsed groundTruth =
     (case RubricGroup_loop parsed groundTruth (rubrics r) (0, 0) of
        (totalScore, totalWeight) \<Rightarrow>
          if totalWeight > 0 then Inr (totalScore / totalWeight) else Inr 0)"

subsection \<open>The tool rubric (pkg/rubrics/tool\_rubric.go)\<close>

text \<open>
  Decoded JSON, as \<^verbatim>\<open>encoding/json\<close> gives it for an \<^verbatim>\<open>interface{}\<close> target.  The
  decoder itself belongs to the Go library; the functions that call it take it as the
  parameter \<open>Unmarshal\<close>, from a text to the decoded object or an error.
\<close>

datatype json =
    JNull | JBool bool | JNumber real | JString string
  | JArray "json list" | JObject "(string \<times> json) list"

type_synonym Unmarshal = "string \<Rightarrow> error + (string \<times> json) list"

text \<open>\<^verbatim>\<open>strings.Index\<close>: the position of the first occurrence, or \<open>-1\<close>.\<close>

fun Index_from :: "nat \<Rightarrow> string \<Rightarrow> string \<Rightarrow> int" where
  "Index_from i [] substr = (if substr = [] then int i else -1)"
| "Index_from i (c # cs) substr =
     (if prefix substr (c # cs) then int i else Index_from (Suc i) cs substr)"

definition strings_Index :: "string \<Rightarrow> string \<Rightarrow> int" where
  "strings_Index s substr = Index_from 0 s substr"

text \<open>
  Of a tool only its name matters to the rubric.  A rubric built with a nil parser
  panics where it calls a method of the parser without a check.
\<close>

record ToolRubric = MultiMetricRubric +
  tools :: "string list"
  rubric_parser :: "XMLParser option"
  rubric_envParser :: "XMLParser option"

definition correctAnswerFunc :: "XMLParser option \<Rightarrow> RewardFunc" where
  "correctAnswerFunc parser parsed groundTruth =
     (let parsed' =
            (case parser of
               None \<Rightarrow> parsed
             | Some p \<Rightarrow>
                 (case ParseXML p parsed True of
                    Inr parsedXML \<Rightarrow>
                      if field parsedXML ''answer'' \<noteq> [] then field parsedXML ''answer'' else parsed
                  | Inl err \<Rightarrow> parsed))
      in if TrimSpace parsed' = TrimSpace groundTruth then Inr 1 else Inr 0)"

text \<open>The score of one message in \<^verbatim>\<open>evaluateFormat\<close>.\<close>

definition formatScore :: "XMLParser \<Rightarrow> string \<Rightarrow> real" where
  "formatScore p msg =
     (let s1 = (if Contains msg ''<think>'' \<and> Contains msg ''</think>'' then 0.3 else 0);
          hasToolTag = (Contains msg ''<tool>'' \<and> Contains msg ''</tool>'');
          hasAnswerTag = (Contains msg ''<answer>'' \<and> Contains msg ''</answer>'');
          s2 = (if hasToolTag \<or> hasAnswerTag then s1 + 0.4 else s1);
          s3 = (case ParseXML p msg True of
                  Inl err \<Rightarrow> s2
                | Inr parsed \<Rightarrow>
                    (let a = s2 + 0.3;
                         b = (if field parsed ''think'' \<noteq> [] then a + 0.1 else a)
                     in if field parsed ''tool'' \<noteq> [] \<or> field parsed ''answer'' \<noteq> []
                        then b + 0.1 else b))
      in if s3 > 1 then 1 else s3)"

definition evaluateFormat :: "XMLParser option \<Rightarrow> string \<Rightarrow> error + real" where
  "evaluateFormat parser response =
     (let messages0 = Split response ''\<newline>---\<newline>'';
          messages = (if length messages0 = 0 then [response] else messages0)
      in case parser of
           None \<Rightarrow> Inl (GoPanic ''invalid memory address or nil pointer dereference'')
         | Some p \<Rightarrow>
             (let totalScore = foldl (\<lambda>total msg. total + formatScore p msg) 0 messages
              in if length messages > 0 then Inr (totalScore / real (length messages))
                 else Inr 0))"

definition extractToolCalls :: "string \<Rightarrow> string list" where
  "extractToolCalls response =
     concat (map (\<lambda>part.
        (let endIdx = strings_Index part ''</tool>'' in
         if endIdx > 0 then
           (let toolJSON = TrimSpace (take (nat endIdx) part)
            in if toolJSON \<noteq> [] then [toolJSON] else [])
         else []))
       (tl (Split response ''<tool>'')))"

text \<open>Whether one extracted payload counts as a valid call.\<close>

definition validCall :: "Unmarshal \<Rightarrow> string list \<Rightarrow> string \<Rightarrow> bool" where
  "validCall unmarshal toolNames toolJSON =
     (case unmarshal toolJSON of
        Inl err \<Rightarrow> False
      | Inr toolCall \<Rightarrow>
          (case map_of toolCall ''name'' of
             Some (JString name) \<Rightarrow>
               name \<noteq> [] \<and> name \<in> set toolNames \<and>
               (case map_of toolCall ''args'' of None \<Rightarrow> False | Some JNull \<Rightarrow> False | Some v \<Rightarrow> True)
           | _ \<Rightarrow> False))"

definition evaluateToolUsage :: "Unmarshal \<Rightarrow> string list \<Rightarrow> string \<Rightarrow> error + real" where
  "evaluateToolUsage unmarshal toolNames response =
     (let toolCalls = extractToolCalls response in
      if length toolCalls = 0 then Inr 0.5
      else
        (let validCalls = length (filter (validCall unmarshal toolNames) toolCalls)
         in if validCalls > 0 then Inr 1 else Inr 0))"

definition formatFunc :: "XMLParser option \<Rightarrow> RewardFunc" where
  "formatFunc parser response groundTruth = evaluateFormat parser response"

definition toolUsageFunc :: "Unmarshal \<Rightarrow> string list \<Rightarrow> RewardFunc" where
  "toolUsageFunc unmarshal toolNames response groundTruth =
     evaluateToolUsage unmarshal toolNames response"

definition NewToolRubric ::
  "Unmarshal \<Rightarrow> string list \<Rightarrow> XMLParser option \<Rightarrow> XMLParser option \<Rightarrow> error + ToolRubric"
where
  "NewToolRubric unmarshal toolList parser envParser =
     (let rubric = MultiMetricRubric.extend NewMultiMetricRubric
            (ToolRubric.fields toolList parser envParser)
      in Inr (AddMetric ''tool_usage'' (toolUsageFunc unmarshal toolList) 0.2
               (AddMetric ''format'' (formatFunc parser) 0.2
                 (AddMetric ''correct_answer'' (correctAnswerFunc parser) 0.6 rubric))))"

section \<open>Multi-turn environments (pkg/envs)\<close>

text \<open>
  The conversation state is a \<^verbatim>\<open>map[string]interface{}\<close>.  The values the environments
  store are a string, a boolean, an integer, the list of tool executions and the list
  of code evaluations (code, output, success).
\<close>

record ToolExecution =
  ToolName :: string
  Args :: "(string \<times> json) list"
  ToolResult :: string
  Success :: bool

datatype go_value =
    VNil | VString string | VBool bool | VInt int
  | VToolExecutions "ToolExecution list"
  | VCodeExecutions "(string \<times> string \<times> bool) list"

type_synonym State = "string \<rightharpoonup> go_value"

text \<open>
  The two methods a multi-turn environment adds to \<^verbatim>\<open>Environment\<close>, and the inference
  client.  An environment and a client may keep state of their own and may talk to the
  outside; \<open>'w\<close> is that world, handed to every call and returned by it.  A Go map
  is a reference, so \<^verbatim>\<open>IsCompleted\<close> can change the state it is given: it returns the
  state as well.
\<close>

record 'w MultiTurnEnvironment =
  IsCompleted :: "'w \<Rightarrow> Message list \<Rightarrow> State \<Rightarrow> bool \<times> State \<times> 'w"
  EnvResponse :: "'w \<Rightarrow> Message list \<Rightarrow> State \<Rightarrow> (error + Message \<times> State) \<times> 'w"

type_synonym 'w Client = "'w \<Rightarrow> Message list \<Rightarrow> (error + string) \<times> 'w"

text \<open>The prompt is an \<^verbatim>\<open>interface{}\<close>: a message list, or something else.\<close>

datatype prompt = PromptMessages "Message list" | PromptString string

text \<open>\<^verbatim>\<open>%d\<close> of a number that is not negative, and \<^verbatim>\<open>fmt.Errorf("...: %w", err)\<close>.\<close>

function itoa :: "nat \<Rightarrow> string" where
  "itoa n = (if n < 10 then [char_of (48 + n)] else itoa (n div 10) @ [char_of (48 + n mod 10)])"
  by pat_completeness auto
termination
  by (relation "measure id") auto

declare itoa.simps [simp del]

fun wrap :: "string \<Rightarrow> error \<Rightarrow> error" where
  "wrap pre (GoError msg) = GoError (pre @ msg)"
| "wrap pre (GoPanic msg) = GoPanic msg"

subsection \<open>BaseMultiTurnRollout\<close>

text \<open>
  The \<^verbatim>\<open>for turn < maxTurns\<close> loop.  Its variables are the working messages, the state,
  the completion trace and the turn counter; the world is threaded along.  A
  \<^verbatim>\<open>break\<close> returns the working messages and the completion trace.
\<close>

function rollout_loop ::
  "'w MultiTurnEnvironment \<Rightarrow> 'w Client \<Rightarrow> int \<Rightarrow>
   Message list \<times> State \<times> Message list \<times> int \<times> 'w \<Rightarrow> error + (Message list \<times> Message list)"
where
  "rollout_loop env client maxTurns (workingMessages, state, completion, turn, w) =
     (if turn < maxTurns then
        (case IsCompleted env w workingMessages state of
           (done1, state1, w1) \<Rightarrow>
             if done1 then Inr (workingMessages, completion)
             else
               (case client w1 workingMessages of
                  (Inl err, w2) \<Rightarrow>
                    Inl (wrap (''failed to get model response at turn '' @ itoa (nat turn) @ '': '') err)
                | (Inr response, w2) \<Rightarrow>
                    (let hasError = HasPrefix response ''[ERROR]'';
                         assistantMsg = \<lparr>Role = ''assistant'', Content = response\<rparr>;
                         workingMessages' = workingMessages @ [assistantMsg];
                         completion' = completion @ [assistantMsg];
                         turn' = turn + 1
                     in case IsCompleted env w2 workingMessages' state1 of
                          (done2, state2, w3) \<Rightarrow>
                            if done2 \<or> turn' \<ge> maxTurns \<or> hasError
                            then Inr (workingMessages', completion')
                            else
                              (case EnvResponse env w3 workingMessages' state2 of
                                 (Inl err, w4) \<Rightarrow>
                                   Inl (wrap (''failed to get environment response at turn '' @
                                              itoa (nat turn') @ '': '') err)
                               | (Inr (envMsg, newState), w4) \<Rightarrow>
                                   rollout_loop env client maxTurns
                                     (workingMessages' @ [envMsg], newState,
                                      completion' @ [envMsg], turn', w4)))))
      else Inr (workingMessages, completion))"
  by pat_completeness auto
termination
  by (relation "measure (\<lambda>(env, client, maxTurns, wm, st, c, turn, w). nat (maxTurns - turn))") auto

declare rollout_loop.simps [simp del]

text \<open>The content of the last assistant message of a list, or the empty string.\<close>

definition lastAssistant :: "Message list \<Rightarrow> string" where
  "lastAssistant ms =
     (case find (\<lambda>m. Role m = ''assistant'') (rev ms) of None \<Rightarrow> [] | Some m \<Rightarrow> Content m)"

definition BaseMultiTurnRollout ::
  "'w MultiTurnEnvironment \<Rightarrow> 'w Client \<Rightarrow> 'w \<Rightarrow> prompt \<Rightarrow> string \<Rightarrow> int \<Rightarrow> error + Rollout"
where
  "BaseMultiTurnRollout env client w prompt answer maxTurns =
     (case prompt of
        PromptMessages messages \<Rightarrow>
          (let state = [''answer'' \<mapsto> VString answer];
               maxTurns' = (if maxTurns \<le> 0 then 10 else maxTurns)
           in case rollout_loop env client maxTurns' (messages, state, [], 0, w) of
                Inl err \<Rightarrow> Inl err
              | Inr (workingMessages, completion) \<Rightarrow>
                  Inr \<lparr>Messages = workingMessages, Response = lastAssistant completion,
                       Score = 0\<rparr>)
      | PromptString s \<Rightarrow>
          Inl (GoError ''multi-turn environment requires []types.Message prompt''))"

text \<open>
  \<^verbatim>\<open>MultiTurnEnv\<close> with the two fields of the embedded \<^verbatim>\<open>BaseEnvironment\<close> that a
  rollout reads; \<^verbatim>\<open>SetParser\<close> and \<^verbatim>\<open>SetRubric\<close> assign them.
\<close>

record MultiTurnEnv =
  MaxTurns :: int
  parser :: "Parser option"
  rubric :: "Rubric option"

definition NewMultiTurnEnv :: "int \<Rightarrow> MultiTurnEnv" where
  "NewMultiTurnEnv maxTurns =
     \<lparr>MaxTurns = (if maxTurns \<le> 0 then 10 else maxTurns), parser = None, rubric = None\<rparr>"

definition SetParser :: "Parser \<Rightarrow> 'a MultiTurnEnv_scheme \<Rightarrow> 'a MultiTurnEnv_scheme" where
  "SetParser p e = e\<lparr>parser := Some p\<rparr>"

definition SetRubric :: "Rubric \<Rightarrow> 'a MultiTurnEnv_scheme \<Rightarrow> 'a MultiTurnEnv_scheme" where
  "SetRubric r e = e\<lparr>rubric := Some r\<rparr>"

subsection \<open>DialogMultiTurnEnv\<close>

record DialogMultiTurnEnv = MultiTurnEnv +
  CompletionKeyword :: string

definition NewDialogMultiTurnEnv :: "int \<Rightarrow> string \<Rightarrow> DialogMultiTurnEnv" where
  "NewDialogMultiTurnEnv maxTurns completionKeyword =
     MultiTurnEnv.extend (NewMultiTurnEnv maxTurns)
       (DialogMultiTurnEnv.fields (if completionKeyword = [] then ''DONE'' else completionKeyword))"

definition Dialog_IsCompleted :: "DialogMultiTurnEnv \<Rightarrow> Message list \<Rightarrow> State \<Rightarrow> bool" where
  "Dialog_IsCompleted e messages state =
     (if length messages = 0 then False
      else Contains (Content (last messages)) (CompletionKeyword e))"

definition Dialog_EnvResponse ::
  "DialogMultiTurnEnv \<Rightarrow> Message list \<Rightarrow> State \<Rightarrow> error + Message \<times> State"
where
  "Dialog_EnvResponse e messages state =
     Inr (\<lparr>Role = ''user'',
           Content = ''Please continue or say '' @ [CHR 0x27] @ CompletionKeyword e @ [CHR 0x27] @
                     '' when finished.''\<rparr>, state)"

definition Dialog_env :: "DialogMultiTurnEnv \<Rightarrow> 'w MultiTurnEnvironment" where
  "Dialog_env e =
     \<lparr>IsCompleted = (\<lambda>w messages state. (Dialog_IsCompleted e messages state, state, w)),
      EnvResponse = (\<lambda>w messages state. (Dialog_EnvResponse e messages state, w))\<rparr>"

definition Dialog_Rollout ::
  "DialogMultiTurnEnv \<Rightarrow> 'w Client \<Rightarrow> 'w \<Rightarrow> prompt \<Rightarrow> string \<Rightarrow> error + Rollout"
where
  "Dialog_Rollout e client w prompt answer =
     (case BaseMultiTurnRollout (Dialog_env e) client w prompt answer (MaxTurns e) of
        Inl err \<Rightarrow> Inl err
      | Inr rollout \<Rightarrow>
          (case parser e of
             None \<Rightarrow> Inr rollout
           | Some p \<Rightarrow>
               if Response rollout = [] then Inr rollout
               else
                 (case Parse p (Response rollout) of
                    Inl err \<Rightarrow> Inl (wrap ''failed to parse response: '' err)
                  | Inr parsed \<Rightarrow>
                      (case rubric e of
                         None \<Rightarrow> Inr rollout
                       | Some r \<Rightarrow>
                           (case ComputeReward r parsed answer of
                              Inl err \<Rightarrow> Inl (wrap ''failed to compute reward: '' err)
                            | Inr score \<Rightarrow> Inr (rollout\<lparr>Score := score\<rparr>))))))"

subsection \<open>DoubleCheckEnv (pkg/envs/tool\_env.go)\<close>

text \<open>
  \<^verbatim>\<open>strings.ToLower\<close> on the ASCII letters; other bytes are left as they are.  The
  environment only asks whether the lowered text contains ``are you sure''.  Apart
  from the ASCII capitals, the only characters that Unicode lowers to an ASCII letter
  give \<open>i\<close> and \<open>k\<close>, which the phrase does not have, so the answer is the same.
\<close>

definition ToLower :: "string \<Rightarrow> string" where
  "ToLower s =
     map (\<lambda>c. if 65 \<le> (of_char c :: nat) \<and> (of_char c :: nat) \<le> 90
               then char_of ((of_char c :: nat) + 32) else c) s"

text \<open>\<^verbatim>\<open>state["asked_double_check"].(bool)\<close> with its \<^verbatim>\<open>ok\<close> flag folded in.\<close>

definition askedDoubleCheck :: "State \<Rightarrow> bool" where
  "askedDoubleCheck state =
     (case state ''asked_double_check'' of Some (VBool b) \<Rightarrow> b | _ \<Rightarrow> False)"

text \<open>
  The scan for a user message that contains ``are you sure'' and is followed by an
  assistant message.  The source walks the indices downwards and returns true at the
  first hit, so the result is whether there is one.
\<close>

fun sureThenAssistant :: "Message list \<Rightarrow> bool" where
  "sureThenAssistant (m # m' # ms) =
     ((Role m = ''user'' \<and> Contains (ToLower (Content m)) ''are you sure'' \<and>
       Role m' = ''assistant'') \<or> sureThenAssistant (m' # ms))"
| "sureThenAssistant ms = False"

definition DoubleCheck_IsCompleted :: "MultiTurnEnv \<Rightarrow> Message list \<Rightarrow> State \<Rightarrow> bool" where
  "DoubleCheck_IsCompleted e messages state =
     (if askedDoubleCheck state then True else sureThenAssistant messages)"

definition DoubleCheck_EnvResponse ::
  "MultiTurnEnv \<Rightarrow> Message list \<Rightarrow> State \<Rightarrow> error + Message \<times> State"
where
  "DoubleCheck_EnvResponse e messages state =
     (if length messages = 0 then Inl (GoError ''no messages to process'')
      else if askedDoubleCheck state then Inl (GoError ''already asked double-check question'')
      else if Role (last messages) \<noteq> ''assistant''
      then Inl (GoError ''last message must be from assistant'')
      else if (case parser e of
                 Some (XMLParserValue p) \<Rightarrow>
                   (case ParseXML p (Content (last messages)) True of
                      Inl err \<Rightarrow> True
                    | Inr parsed \<Rightarrow> field parsed ''answer'' = [])
               | _ \<Rightarrow> False)
      then Inr (\<lparr>Role = ''user'',
                 Content = ''Please provide your answer in the correct format with <think> and <answer> tags.''\<rparr>,
                state)
      else Inr (\<lparr>Role = ''user'', Content = ''Are you sure? Double-check your answer.''\<rparr>,
                state(''asked_double_check'' \<mapsto> VBool True)))"

definition DoubleCheck_env :: "MultiTurnEnv \<Rightarrow> 'w MultiTurnEnvironment" where
  "DoubleCheck_env e =
     \<lparr>IsCompleted = (\<lambda>w messages state. (DoubleCheck_IsCompleted e messages state, state, w)),
      EnvResponse = (\<lambda>w messages state. (DoubleCheck_EnvResponse e messages state, w))\<rparr>"

text \<open>
  \<^verbatim>\<open>NewDoubleCheckEnv\<close> installs the think/answer parser and the math rubric; the math
  rubric is passed in.
\<close>

definition NewDoubleCheckEnv :: "Rubric \<Rightarrow> error + MultiTurnEnv" where
  "NewDoubleCheckEnv mathRubric =
     (case NewXMLParser [FieldName ''think'', FieldName ''answer''] ''answer'' of
        Inl err \<Rightarrow> Inl err
      | Inr p \<Rightarrow> Inr (SetRubric mathRubric (SetParser (XMLParserValue p) (NewMultiTurnEnv 2))))"

definition DoubleCheck_Rollout ::
  "MultiTurnEnv \<Rightarrow> 'w Client \<Rightarrow> 'w \<Rightarrow> prompt \<Rightarrow> string \<Rightarrow> error + Rollout"
where
  "DoubleCheck_Rollout e client w prompt answer =
     (case BaseMultiTurnRollout (DoubleCheck_env e) client w prompt answer (MaxTurns e) of
        Inl err \<Rightarrow> Inl err
      | Inr rollout \<Rightarrow>
          (case parser e of
             None \<Rightarrow> Inr rollout
           | Some p \<Rightarrow>
               if length (Messages rollout) > 0 then
                 (let finalResponse = lastAssistant (Messages rollout) in
                  if finalResponse \<noteq> [] then
                    (case Parse p finalResponse of
                       Inl err \<Rightarrow> Inr rollout
                     | Inr parsed \<Rightarrow>
                         (case rubric e of
                            None \<Rightarrow> Inr rollout
                          | Some r \<Rightarrow>
                              (case ComputeReward r parsed answer of
                                 Inl err \<Rightarrow> Inr rollout
                               | Inr score \<Rightarrow> Inr (rollout\<lparr>Score := score\<rparr>))))
                  else Inr rollout)
               else Inr rollout))"

subsection \<open>ToolEnv (pkg/envs/tool\_env.go)\<close>

text \<open>
  The tool registry and the dispatch of a call are outside the rollout logic:
  \<open>callTool\<close> is the function from the JSON text of a call to the result text.
\<close>

record ToolEnv = MultiTurnEnv +
  ToolParser :: XMLParser
  callTool :: "string \<Rightarrow> string"

text \<open>
  Whether some assistant message parses to a non-empty answer field; the source scans
  from the last message and returns true at the first hit.
\<close>

fun answered :: "XMLParser \<Rightarrow> Message list \<Rightarrow> bool" where
  "answered p [] = False"
| "answered p (m # ms) =
     ((Role m = ''assistant'' \<and>
       (case ParseXML p (Content m) True of
          Inl err \<Rightarrow> False | Inr parsed \<Rightarrow> field parsed ''answer'' \<noteq> [])) \<or>
      answered p ms)"

definition formatError :: "string \<Rightarrow> string" where
  "formatError msg = ''<result>\<newline>'' @ msg @ ''\<newline></result>''"

definition ToolEnv_EnvResponse ::
  "ToolEnv \<Rightarrow> Message list \<Rightarrow> State \<Rightarrow> error + Message \<times> State"
where
  "ToolEnv_EnvResponse e messages state =
     (if length messages = 0 then Inl (GoError ''no messages to process'')
      else if Role (last messages) \<noteq> ''assistant''
      then Inl (GoError ''last message must be from assistant'')
      else
        (case ParseXML (ToolParser e) (Content (last messages)) True of
           Inl err \<Rightarrow>
             Inr (\<lparr>Role = ''user'',
                   Content = formatError ''Failed to parse response. Please use the correct XML format.''\<rparr>,
                  state)
         | Inr parsed \<Rightarrow>
             (let toolJSON = field parsed ''tool'' in
              if toolJSON = [] then
                Inr (\<lparr>Role = ''user'',
                      Content = formatError ''No tool call found. Use <tool>{json}</tool> to call a tool.''\<rparr>,
                     state)
              else
                Inr (\<lparr>Role = ''user'',
                      Content = ''<result>\<newline>'' @ callTool e toolJSON @ ''\<newline></result>''\<rparr>,
                     state))))"

definition ToolEnv_env :: "ToolEnv \<Rightarrow> 'w MultiTurnEnvironment" where
  "ToolEnv_env e =
     \<lparr>IsCompleted = (\<lambda>w messages state. (answered (ToolParser e) messages, state, w)),
      EnvResponse = (\<lambda>w messages state. (ToolEnv_EnvResponse e messages state, w))\<rparr>"

definition ToolEnv_Rollout ::
  "ToolEnv \<Rightarrow> 'w Client \<Rightarrow> 'w \<Rightarrow> prompt \<Rightarrow> string \<Rightarrow> error + Rollout"
where
  "ToolEnv_Rollout e client w prompt answer =
     BaseMultiTurnRollout (ToolEnv_env e) client w prompt answer (MaxTurns e)"

subsection \<open>CodeMathEnv\<close>

text \<open>
  The evaluation of the expressions of a code block is done by an expression library;
  \<open>evaluateExpressions\<close> is the function from the code to the output and the success
  flag.
\<close>

record CodeMathEnv = MultiTurnEnv +
  CodeParser :: XMLParser
  evaluateExpressions :: "string \<Rightarrow> string \<times> bool"

definition CodeMath_EnvResponse ::
  "CodeMathEnv \<Rightarrow> Message list \<Rightarrow> State \<Rightarrow> error + Message \<times> State"
where
  "CodeMath_EnvResponse e messages state =
     (if length messages = 0 then Inl (GoError ''no messages to process'')
      else if Role (last messages) \<noteq> ''assistant''
      then Inl (GoError ''last message must be from assistant'')
      else
        (case ParseXML (CodeParser e) (Content (last messages)) True of
           Inl err \<Rightarrow>
             Inr (\<lparr>Role = ''user'',
                   Content = ''Failed to parse response. Please use the correct XML format with <reasoning>, <code>, and <answer> tags.''\<rparr>,
                  state)
         | Inr parsed \<Rightarrow>
             (let code = field parsed ''code'' in
              if code = [] then
                Inr (\<lparr>Role = ''user'',
                      Content = ''No mathematical expressions found. Please provide expressions or calculations in <code> tags.''\<rparr>,
                     state)
              else
                (case evaluateExpressions e code of
                   (output, success) \<Rightarrow>
                     (let response =
                            (if \<not> success then ''Evaluation error:\<newline>'' @ output
                             else ''Evaluation results:\<newline>'' @ output)
                      in case (case state ''code_executions'' of
                                 None \<Rightarrow> Inr []
                               | Some VNil \<Rightarrow> Inr []
                               | Some (VCodeExecutions xs) \<Rightarrow> Inr xs
                               | Some v \<Rightarrow> Inl (GoPanic ''interface conversion''))
                         of
                           Inl err \<Rightarrow> Inl err
                         | Inr executions \<Rightarrow>
                             Inr (\<lparr>Role = ''user'', Content = response\<rparr>,
                                  state(''code_executions'' \<mapsto>
                                    VCodeExecutions (executions @ [(code, output, success)]))))))))"

definition CodeMath_env :: "CodeMathEnv \<Rightarrow> 'w MultiTurnEnvironment" where
  "CodeMath_env e =
     \<lparr>IsCompleted = (\<lambda>w messages state.
        (if length messages = 0 then False else answered (CodeParser e) messages, state, w)),
      EnvResponse = (\<lambda>w messages state. (CodeMath_EnvResponse e messages state, w))\<rparr>"

definition CodeMathEnv_Rollout ::
  "CodeMathEnv \<Rightarrow> 'w Client \<Rightarrow> 'w \<Rightarrow> prompt \<Rightarrow> string \<Rightarrow> error + Rollout"
where
  "CodeMathEnv_Rollout e client w prompt answer =
     BaseMultiTurnRollout (CodeMath_env e) client w prompt answer (MaxTurns e)"

subsection \<open>The tool-JSON-aware parser (SmolaParser) and SmolaToolEnv\<close>

record SmolaParser =
  smolaFields :: "XMLField list"

text \<open>
  \<^verbatim>\<open>ParseSmola\<close> fills the field map as \<^verbatim>\<open>ParseXML\<close> does, and keeps the decoded
  content of a non-empty \<^verbatim>\<open>tool\<close> field when it decodes.
\<close>

type_synonym ParsedSmola = "Fields \<times> (string \<times> json) list"

fun ParseSmola_alternatives ::
  "Unmarshal \<Rightarrow> string \<Rightarrow> bool \<Rightarrow> string list \<Rightarrow> ParsedSmola \<Rightarrow> error + ParsedSmola"
where
  "ParseSmola_alternatives unmarshal text strip [] result = Inr result"
| "ParseSmola_alternatives unmarshal text strip (alt # alts) (fs, toolJSON) =
     (case regexp_Compile alt of
        Inl (GoError msg) \<Rightarrow> Inl (GoError (''failed to compile regex: '' @ msg))
      | Inl err \<Rightarrow> Inl err
      | Inr re \<Rightarrow>
          (case FindStringSubmatch re text of
             Some content0 \<Rightarrow>
               (let content = (if strip then TrimSpace content0 else content0);
                    toolJSON' =
                      (if alt = ''tool'' \<and> content \<noteq> [] then
                         (case unmarshal content of
                            Inr toolData \<Rightarrow> toolData | Inl err \<Rightarrow> toolJSON)
                       else toolJSON)
                in ParseSmola_alternatives unmarshal text strip alts (fs(alt \<mapsto> content), toolJSON'))
           | None \<Rightarrow> ParseSmola_alternatives unmarshal text strip alts (fs, toolJSON)))"

fun ParseSmola_fields ::
  "Unmarshal \<Rightarrow> string \<Rightarrow> bool \<Rightarrow> XMLField list \<Rightarrow> ParsedSmola \<Rightarrow> error + ParsedSmola"
where
  "ParseSmola_fields unmarshal text strip [] result = Inr result"
| "ParseSmola_fields unmarshal text strip (f # fs) result =
     (case ParseSmola_alternatives unmarshal text strip (Alternatives f) result of
        Inl err \<Rightarrow> Inl err
      | Inr result' \<Rightarrow> ParseSmola_fields unmarshal text strip fs result')"

definition ParseSmola :: "Unmarshal \<Rightarrow> SmolaParser \<Rightarrow> string \<Rightarrow> bool \<Rightarrow> error + ParsedSmola" where
  "ParseSmola unmarshal p text strip =
     ParseSmola_fields unmarshal text strip (smolaFields p) (Map.empty, [])"

record SmolaToolEnv = MultiTurnEnv +
  SmolaParserOf :: SmolaParser
  smolaCallTool :: "string \<Rightarrow> string"
  ExcludeFewShot :: bool

text \<open>
  The loop of \<^verbatim>\<open>SmolaToolEnv.IsCompleted\<close>.  \<^verbatim>\<open>isFewShotMessage\<close> returns false on
  both of its paths.  The result is \<open>None\<close> when the loop returns true from inside,
  and the number of tool steps otherwise.
\<close>

fun Smola_count ::
  "Unmarshal \<Rightarrow> SmolaParser \<Rightarrow> bool \<Rightarrow> int \<Rightarrow> Message list \<Rightarrow> int option"
where
  "Smola_count unmarshal p startCounting toolSteps [] = Some toolSteps"
| "Smola_count unmarshal p startCounting toolSteps (msg # msgs) =
     (let startCounting' = (startCounting \<or> Role msg = ''user'') in
      if startCounting' \<and> Role msg = ''assistant'' then
        (case ParseSmola unmarshal p (Content msg) True of
           Inl err \<Rightarrow> Smola_count unmarshal p startCounting' toolSteps msgs
         | Inr (fs, toolJSON) \<Rightarrow>
             (let toolSteps' = (if field fs ''tool'' \<noteq> [] then toolSteps + 1 else toolSteps)
              in if field fs ''answer'' \<noteq> [] then None
                 else Smola_count unmarshal p startCounting' toolSteps' msgs))
      else Smola_count unmarshal p startCounting' toolSteps msgs)"

definition Smola_IsCompleted ::
  "Unmarshal \<Rightarrow> SmolaToolEnv \<Rightarrow> Message list \<Rightarrow> State \<Rightarrow> bool \<times> State"
where
  "Smola_IsCompleted unmarshal e messages state =
     (if length messages = 0 then (False, state)
      else
        (case Smola_count unmarshal (SmolaParserOf e) False 0 messages of
           None \<Rightarrow> (True, state)
         | Some toolSteps \<Rightarrow> (False, state(''tool_steps'' \<mapsto> VInt toolSteps))))"

text \<open>
  \<^verbatim>\<open>SmolaToolEnv.EnvResponse\<close>.  After the tool has been called the execution is recorded;
  the record's arguments are read with the type assertion
  \<^verbatim>\<open>toolCall["args"].(map[string]interface{})\<close>, which has no \<^verbatim>\<open>ok\<close> result and
  therefore panics unless the decoded call has an \<^verbatim>\<open>args\<close> member that is an object.
  When decoding failed \<^verbatim>\<open>toolCall\<close> is the nil map, which has no members.
\<close>

definition Smola_EnvResponse ::
  "Unmarshal \<Rightarrow> SmolaToolEnv \<Rightarrow> Message list \<Rightarrow> State \<Rightarrow> error + Message \<times> State"
where
  "Smola_EnvResponse unmarshal e messages state =
     (if length messages = 0 then Inl (GoError ''no messages to process'')
      else if Role (last messages) \<noteq> ''assistant''
      then Inl (GoError ''last message must be from assistant'')
      else
        (case ParseSmola unmarshal (SmolaParserOf e) (Content (last messages)) True of
           Inl err \<Rightarrow>
             Inr (\<lparr>Role = ''user'',
                   Content = formatError ''Failed to parse response. Please use the correct XML format.''\<rparr>,
                  state)
         | Inr (fs, decoded) \<Rightarrow>
             (let toolJSON = field fs ''tool'' in
              if toolJSON = [] then
                Inr (\<lparr>Role = ''user'',
                      Content = formatError ''No tool call found. Use <tool>{json}</tool> to call a tool.''\<rparr>,
                     state)
              else
                (let result = smolaCallTool e toolJSON in
                 case (case state ''tool_executions'' of
                         None \<Rightarrow> Inr []
                       | Some VNil \<Rightarrow> Inr []
                       | Some (VToolExecutions xs) \<Rightarrow> Inr xs
                       | Some v \<Rightarrow> Inl (GoPanic ''interface conversion''))
                 of
                   Inl err \<Rightarrow> Inl err
                 | Inr executions \<Rightarrow>
                     (let (toolCall, success, toolName) =
                            (case unmarshal toolJSON of
                               Inr call \<Rightarrow>
                                 (call,
                                  \<not> HasPrefix result ''Error:'',
                                  (case map_of call ''name'' of
                                     Some (JString name) \<Rightarrow> name | _ \<Rightarrow> ''unknown''))
                             | Inl err \<Rightarrow> ([], False, ''unknown''))
                      in case map_of toolCall ''args'' of
                           Some (JObject args) \<Rightarrow>
                             Inr (\<lparr>Role = ''user'',
                                   Content = ''<result>\<newline>'' @ result @ ''\<newline></result>''\<rparr>,
                                  state(''tool_executions'' \<mapsto>
                                    VToolExecutions (executions @
                                      [\<lparr>ToolName = toolName, Args = args, ToolResult = result,
                                        Success = success\<rparr>])))
                         | _ \<Rightarrow>
                             Inl (GoPanic ''interface conversion: interface {} is not map[string]interface {}''))))))"

definition Smola_env :: "Unmarshal \<Rightarrow> SmolaToolEnv \<Rightarrow> 'w MultiTurnEnvironment" where
  "Smola_env unmarshal e =
     \<lparr>IsCompleted = (\<lambda>w messages state.
        (case Smola_IsCompleted unmarshal e messages state of (b, state') \<Rightarrow> (b, state', w))),
      EnvResponse = (\<lambda>w messages state. (Smola_EnvResponse unmarshal e messages state, w))\<rparr>"

subsection \<open>EnvGroup (pkg/envs/env\_group.go)\<close>

text \<open>
  Of a sub-environment the group calls \<^verbatim>\<open>Rollout\<close>; client, model and sampling
  arguments are passed through, so a sub-environment is its rollout as a function of
  the prompt and the answer.
\<close>

type_synonym Environment = "prompt \<Rightarrow> string \<Rightarrow> error + Rollout"

record EnvGroup =
  envs :: "string \<rightharpoonup> Environment"
  envNames :: "string list"

text \<open>
  \<^verbatim>\<open>NewEnvGroup\<close> ranges over the map it is given and appends each name.  The order
  of that iteration is the order of the list of entries here; its keys are distinct.
\<close>

definition NewEnvGroup :: "(string \<times> Environment) list \<Rightarrow> EnvGroup" where
  "NewEnvGroup entries = \<lparr>envs = map_of entries, envNames = map fst entries\<rparr>"

definition parseTaskAnswer :: "EnvGroup \<Rightarrow> string \<Rightarrow> string \<times> string" where
  "parseTaskAnswer g answer =
     (let parts = SplitN2 answer (CHR '':'') in
      if length parts = 2 then (parts ! 0, parts ! 1)
      else if length (envNames g) > 0 then (envNames g ! 0, answer)
      else ([], answer))"

definition EnvGroup_Rollout :: "EnvGroup \<Rightarrow> prompt \<Rightarrow> string \<Rightarrow> error + Rollout" where
  "EnvGroup_Rollout g prompt answer =
     (case parseTaskAnswer g answer of
        (task, actualAnswer) \<Rightarrow>
          (case envs g task of
             None \<Rightarrow> Inl (GoError (''unknown task: '' @ task))
           | Some env \<Rightarrow> env prompt actualAnswer))"

section \<open>Utilities (pkg/utils)\<close>

subsection \<open>NormalizeNumber and CompareMathAnswers\<close>

text \<open>
  \<^verbatim>\<open>strconv.ParseFloat\<close>, \<^verbatim>\<open>strconv.FormatFloat(f, 'f', -1, 64)\<close> and the arithmetic
  of \<^verbatim>\<open>float64\<close> belong to the Go library and the machine.  The functions below take
  them as a parameter: \<open>'f\<close> is the type of floating-point values, with parsing (which
  can fail), formatting, subtraction, the order \<open><\<close> and the constant \<^verbatim>\<open>1e-9\<close>.
\<close>

record 'f Float64 =
  ParseFloat :: "string \<Rightarrow> 'f option"
  FormatFloat :: "'f \<Rightarrow> string"
  fsub :: "'f \<Rightarrow> 'f \<Rightarrow> 'f"
  fless :: "'f \<Rightarrow> 'f \<Rightarrow> bool"
  epsilon :: 'f

definition NormalizeNumber :: "'f Float64 \<Rightarrow> string \<Rightarrow> string" where
  "NormalizeNumber F text =
     (let text1 = TrimSpace text;
          text2 = RemoveAll (CHR '','') text1;
          text3 = RemoveAll (CHR ''$'') text2;
          text4 = RemoveAll (CHR '' '') text3
      in case ParseFloat F text4 of Some f \<Rightarrow> FormatFloat F f | None \<Rightarrow> text4)"

definition CompareMathAnswers :: "'f Float64 \<Rightarrow> string \<Rightarrow> string \<Rightarrow> bool" where
  "CompareMathAnswers F answer1 answer2 =
     (if answer1 = answer2 then True
      else
        (let norm1 = NormalizeNumber F answer1;
             norm2 = NormalizeNumber F answer2
         in if norm1 = norm2 then True
            else
              (case (ParseFloat F norm1, ParseFloat F norm2) of
                 (Some num1, Some num2) \<Rightarrow>
                   fless F (fsub F num1 num2) (epsilon F) \<and> fless F (fsub F num2 num1) (epsilon F)
               | _ \<Rightarrow> False)))"

text \<open>
  An instance of the parameter for plain decimal numerals, with exact rational
  arithmetic: an optional sign, digits, and optionally a point and more digits.
  Formatting prints the integer part and the fraction digits up to the last one that
  is not zero (at most twenty).
\<close>

definition digitVal :: "char \<Rightarrow> nat option" where
  "digitVal c =
     (if 48 \<le> (of_char c :: nat) \<and> (of_char c :: nat) \<le> 57 then Some ((of_char c :: nat) - 48)
      else None)"

fun digitsVal :: "nat \<Rightarrow> string \<Rightarrow> nat option" where
  "digitsVal acc [] = Some acc"
| "digitsVal acc (c # cs) =
     (case digitVal c of None \<Rightarrow> None | Some d \<Rightarrow> digitsVal (10 * acc + d) cs)"

definition parseUnsigned :: "string \<Rightarrow> rat option" where
  "parseUnsigned s =
     (let ip = takeWhile (\<lambda>c. c \<noteq> CHR ''.'') s;
          rest = dropWhile (\<lambda>c. c \<noteq> CHR ''.'') s;
          fp = (if rest = [] then [] else tl rest)
      in if ip = [] \<or> (rest \<noteq> [] \<and> fp = []) then None
         else
           (case (digitsVal 0 ip, digitsVal 0 fp) of
              (Some i, Some f) \<Rightarrow> Some (of_nat i + of_nat f / 10 ^ length fp)
            | _ \<Rightarrow> None))"

definition decimalParse :: "string \<Rightarrow> rat option" where
  "decimalParse s =
     (case s of
        [] \<Rightarrow> None
      | c # cs \<Rightarrow>
          if c = CHR ''-'' then map_option uminus (parseUnsigned cs)
          else if c = CHR ''+'' then parseUnsigned cs
          else parseUnsigned s)"

fun fractionDigits :: "nat \<Rightarrow> rat \<Rightarrow> string" where
  "fractionDigits 0 x = []"
| "fractionDigits (Suc fuel) x =
     (if x = 0 then []
      else (let d = nat \<lfloor>x * 10\<rfloor> in char_of (48 + d) # fractionDigits fuel (x * 10 - of_nat d)))"

definition decimalFormat :: "rat \<Rightarrow> string" where
  "decimalFormat x =
     (let a = \<bar>x\<bar>; i = nat \<lfloor>a\<rfloor>; fr = fractionDigits 20 (a - of_nat i)
      in (if x < 0 then ''-'' else []) @ itoa i @ (if fr = [] then [] else ''.'' @ fr))"

definition DecimalFloat :: "rat Float64" where
  "DecimalFloat =
     \<lparr>ParseFloat = decimalParse, FormatFloat = decimalFormat, fsub = (-), fless = (<),
      epsilon = 1 / 10 ^ 9\<rparr>"

subsection \<open>BatchProcessor.Process\<close>

record 'r ProcessResult =
  Index :: nat
  Result :: 'r
  Error :: "error option"

text \<open>
  \<^verbatim>\<open>Process\<close> starts one goroutine for each item and waits for all of them.  What a
  goroutine does depends on the outcome of its \<^verbatim>\<open>select\<close>: it acquires the semaphore,
  or it finds the context done.  In the first case it calls the processor with the
  context derived for the item, in the second it reports the context's error and the
  zero value of the result type.  In both cases it then writes its own slot of the
  result slice, once.

  A run is described by the outcome of each goroutine's \<^verbatim>\<open>select\<close>, by the context
  each processor call gets, and by the order in which the goroutines write their slots.
  The semaphore limits how many processor calls overlap in time; it has no part in
  what is written.
\<close>

datatype select_outcome = Acquired | CtxDone error

record ('c, 't, 'r) Run =
  selected :: "nat \<Rightarrow> select_outcome"
  itemCtx :: "nat \<Rightarrow> 'c"
  schedule :: "nat list"

definition worker ::
  "('c \<Rightarrow> 't \<Rightarrow> 'r \<times> error option) \<Rightarrow> 'r \<Rightarrow> ('c, 't, 'r) Run \<Rightarrow> nat \<Rightarrow> 't \<Rightarrow> 'r ProcessResult"
where
  "worker processor zero run index item =
     (case selected run index of
        CtxDone err \<Rightarrow> \<lparr>Index = index, Result = zero, Error = Some err\<rparr>
      | Acquired \<Rightarrow>
          (case processor (itemCtx run index) item of
             (result, err) \<Rightarrow> \<lparr>Index = index, Result = result, Error = err\<rparr>))"

definition Process ::
  "('c \<Rightarrow> 't \<Rightarrow> 'r \<times> error option) \<Rightarrow> 'r \<Rightarrow> ('c, 't, 'r) Run \<Rightarrow> 't list \<Rightarrow> 'r ProcessResult list"
where
  "Process processor zero run items =
     fold (\<lambda>index results. results[index := worker processor zero run index (items ! index)])
       (schedule run)
       (replicate (length items) \<lparr>Index = 0, Result = zero, Error = None\<rparr>)"

text \<open>
  A schedule of a run over \<open>n\<close> items: every goroutine writes exactly once.
\<close>

definition complete_schedule :: "nat \<Rightarrow> nat list \<Rightarrow> bool" where
  "complete_schedule n sched = (distinct sched \<and> set sched = {..<n})"

section \<open>Notions and inputs used in the statements\<close>

text \<open>
  The weight the loop of \<^verbatim>\<open>BaseRubric.ComputeReward\<close> uses for the function at index
  \<open>i\<close>, and the list of these weights for a rubric.
\<close>

definition weightAt :: "real list \<Rightarrow> nat \<Rightarrow> real" where
  "weightAt ws i = (if i < length ws then ws ! i else 1)"

definition effectiveWeights :: "'a BaseRubric_scheme \<Rightarrow> real list" where
  "effectiveWeights r = map (weightAt (rewardWeights r)) [0..<length (rewardFuncs r)]"

text \<open>A reward function that returns a fixed score, and one that fails.\<close>

definition always :: "real \<Rightarrow> RewardFunc" where
  "always x parsed groundTruth = Inr x"

definition failing :: "string \<Rightarrow> RewardFunc" where
  "failing msg parsed groundTruth = Inl (GoError msg)"



text \<open>
  The weight \<^verbatim>\<open>RubricGroup.ComputeReward\<close> gives a member, and the members whose own
  \<^verbatim>\<open>ComputeReward\<close> returns a score for the given texts, with that score.
\<close>

definition memberWeight :: "Rubric \<Rightarrow> real" where
  "memberWeight m =
     (if GetRewardWeights m = [] then 1 else sum_list (GetRewardWeights m))"

fun scored :: "string \<Rightarrow> string \<Rightarrow> Rubric list \<Rightarrow> (real \<times> Rubric) list" where
  "scored parsed groundTruth [] = []"
| "scored parsed groundTruth (m # ms) =
     (case ComputeReward m parsed groundTruth of
        Inl err \<Rightarrow> scored parsed groundTruth ms
      | Inr score \<Rightarrow> (score, m) # scored parsed groundTruth ms)"

text \<open>
  The group score in the words of the specification: the sum over the members that
  did not fail of score times the sum of the member's weights, divided by the sum of
  those weight sums.
\<close>

definition weightNormalizedSum :: "string \<Rightarrow> string \<Rightarrow> Rubric list \<Rightarrow> real" where
  "weightNormalizedSum parsed groundTruth ms =
     (\<Sum>(score, m) \<leftarrow> scored parsed groundTruth ms. score * sum_list (GetRewardWeights m)) /
     (\<Sum>(score, m) \<leftarrow> scored parsed groundTruth ms. sum_list (GetRewardWeights m))"

text \<open>A member that implements the interface directly, with a fixed result.\<close>

definition fixedRubric :: "real list \<Rightarrow> error + real \<Rightarrow> Rubric" where
  "fixedRubric ws res =
     \<lparr>GetRewardFuncs = [], GetRewardWeights = ws, ComputeReward = (\<lambda>parsed groundTruth. res)\<rparr>"

definition unweightedGroup :: RubricGroup where
  "unweightedGroup =
     \<lparr>rubrics = [fixedRubric [] (Inr 1), fixedRubric [1] (Inr 0)],
      rubricNames = [''a'', ''b''], mergeWeights = False\<rparr>"

definition partlyFailingGroup :: RubricGroup where
  "partlyFailingGroup =
     \<lparr>rubrics = [fixedRubric [1] (Inl (GoError ''judge unavailable'')),
                 BaseRubric_Rubric \<lparr>rewardFuncs = [always 1, always 0], rewardWeights = [3, 1]\<rparr>,
                 fixedRubric [2, 2] (Inr (1 / 2))],
      rubricNames = [''a'', ''b'', ''c''], mergeWeights = False\<rparr>"

definition oneFailing :: BaseRubric where
  "oneFailing =
     \<lparr>rewardFuncs = [always 1, failing ''boom'', always 0], rewardWeights = [1, 1, 1]\<rparr>"

text \<open>
  An environment that never reports completion and always asks to go on, and a client
  that always gives the same reply; neither keeps any state.
\<close>

definition neverDone :: "unit MultiTurnEnvironment" where
  "neverDone =
     \<lparr>IsCompleted = (\<lambda>w messages state. (False, state, w)),
      EnvResponse = (\<lambda>w messages state. (Inr (\<lparr>Role = ''user'', Content = ''go on''\<rparr>, state), w))\<rparr>"

definition sameReply :: "string \<Rightarrow> unit Client" where
  "sameReply reply w messages = (Inr reply, w)"

text \<open>The environment never answers in the role of the assistant.\<close>

definition envNotAssistant :: "'w MultiTurnEnvironment \<Rightarrow> bool" where
  "envNotAssistant env =
     (\<forall>w messages state m state' w'.
        EnvResponse env w messages state = (Inr (m, state'), w') \<longrightarrow> Role m \<noteq> ''assistant'')"

definition assistantCount :: "Message list \<Rightarrow> nat" where
  "assistantCount ms = length (filter (\<lambda>m. Role m = ''assistant'') ms)"

text \<open>
  A sub-environment that returns a rollout whose response names the environment and
  repeats the answer it was given.
\<close>

definition namedEnv :: "string \<Rightarrow> Environment" where
  "namedEnv name prompt answer =
     Inr \<lparr>Messages = [], Response = name @ '' got '' @ answer, Score = 0\<rparr>"





definition thinkAnswerParser :: XMLParser where
  "thinkAnswerParser =
     \<lparr>parserFields = [\<lparr>Canonical = ''think'', Alternatives = [''think'']\<rparr>,
                      \<lparr>Canonical = ''answer'', Alternatives = [''answer'']\<rparr>],
      answerField = ''answer''\<rparr>"



text \<open>
  A decoder that rejects every text, and the parser of the tool environment, with the
  fields think and tool-or-answer.
\<close>

definition rejectAll :: Unmarshal where
  "rejectAll s = Inl (GoError ''invalid character'')"

definition toolParser :: XMLParser where
  "toolParser =
     \<lparr>parserFields = [\<lparr>Canonical = ''think'', Alternatives = [''think'']\<rparr>,
                      \<lparr>Canonical = ''tool'', Alternatives = [''tool'', ''answer'']\<rparr>],
      answerField = ''answer''\<rparr>"

text \<open>
  A parser that fails on every response, a dialog environment and a double-check
  environment with the think/answer parser and the exact-match rubric, and the same
  two environments with the failing parser.
\<close>

definition brokenParser :: Parser where
  "brokenParser = OtherParser (\<lambda>response. Inl (GoError ''unparseable''))"

definition dialogEnv :: DialogMultiTurnEnv where
  "dialogEnv =
     SetRubric (BaseRubric_Rubric NewBaseRubric)
       (SetParser (XMLParserValue thinkAnswerParser) (NewDialogMultiTurnEnv 3 ''DONE''))"

definition doubleCheckEnv :: MultiTurnEnv where
  "doubleCheckEnv =
     SetRubric (BaseRubric_Rubric NewBaseRubric)
       (SetParser (XMLParserValue thinkAnswerParser) (NewMultiTurnEnv 2))"

definition question :: prompt where
  "question = PromptMessages [\<lparr>Role = ''user'', Content = ''What is 2 + 2?''\<rparr>]"

text \<open>
  A decoder that accepts only the empty object, the parser of the SmolaAgents tool
  environment, and that environment with a tool dispatch that reports an error.
\<close>

definition emptyObjectOnly :: Unmarshal where
  "emptyObjectOnly s = (if s = ''{}'' then Inr [] else Inl (GoError ''invalid character''))"

definition smolaParser :: SmolaParser where
  "smolaParser =
     \<lparr>smolaFields = [\<lparr>Canonical = ''think'', Alternatives = [''think'']\<rparr>,
                     \<lparr>Canonical = ''tool'', Alternatives = [''tool'']\<rparr>,
                     \<lparr>Canonical = ''answer'', Alternatives = [''answer'']\<rparr>]\<rparr>"

definition malformedCall :: "string \<Rightarrow> string" where
  "malformedCall toolJSON = ''Error: malformed tool call''"

definition smolaEnv :: SmolaToolEnv where
  "smolaEnv =
     MultiTurnEnv.extend (NewMultiTurnEnv 10) (SmolaToolEnv.fields smolaParser malformedCall False)"

text \<open>
  A processor that fails on the item 1 and multiplies every other item by ten; a run
  of two workers in which the second finds the context cancelled, and one in which
  both acquire the semaphore.  In both runs the second worker writes first.
\<close>

definition failsOnOne :: "unit \<Rightarrow> nat \<Rightarrow> nat \<times> error option" where
  "failsOnOne ctx item = (if item = 1 then (0, Some (GoError ''boom'')) else (10 * item, None))"

definition selectSecondDone :: "nat \<Rightarrow> select_outcome" where
  "selectSecondDone index = (if index = 1 then CtxDone (GoError ''context canceled'') else Acquired)"

definition selectAcquired :: "nat \<Rightarrow> select_outcome" where
  "selectAcquired index = Acquired"

definition unitCtx :: "nat \<Rightarrow> unit" where
  "unitCtx index = ()"

definition cancelledRun :: "(unit, nat, nat) Run" where
  "cancelledRun = \<lparr>selected = selectSecondDone, itemCtx = unitCtx, schedule = [1, 0]\<rparr>"

definition liveRun :: "(unit, nat, nat) Run" where
  "liveRun = \<lparr>selected = selectAcquired, itemCtx = unitCtx, schedule = [1, 0]\<rparr>"

section \<open>Properties\<close>

subsection \<open>The weighted average of a rubric\<close>

lemma ComputeReward_loop_ok:
  "map (\<lambda>fn. fn p g) fs = map Inr rs \<Longrightarrow>
   ComputeReward_loop ws p g i fs (tr, tw) =
     Inr (tr + sum_list (map2 (*) rs (map (weightAt ws) [i..<i + length fs])),
          tw + sum_list (map (weightAt ws) [i..<i + length fs]))"
proof (induction fs arbitrary: rs i tr tw)
  case Nil
  then show ?case by simp
next
  case (Cons fn fs)
  then obtain x xs where rs: "rs = x # xs" and fx: "fn p g = Inr x"
    and rest: "map (\<lambda>fn. fn p g) fs = map Inr xs"
    by (cases rs) auto
  have up: "[i..<Suc (i + length fs)] = i # [Suc i..<Suc (i + length fs)]"
    by (rule upt_conv_Cons) simp
  show ?case
    using Cons.IH[OF rest, of "Suc i" "tr + x * weightAt ws i" "tw + weightAt ws i"]
    by (simp add: rs fx up weightAt_def Let_def algebra_simps del: upt_Suc)
qed

lemma ComputeReward_loop_first_error:
  "map (\<lambda>fn. fn p g) pre = map Inr rs \<Longrightarrow> fn p g = Inl e \<Longrightarrow>
   ComputeReward_loop ws p g i (pre @ fn # post) acc = Inl e"
proof (induction pre arbitrary: rs i acc)
  case Nil
  then show ?case by (cases acc) (simp add: Let_def)
next
  case (Cons a pre)
  then obtain x xs where "rs = x # xs" "a p g = Inr x" "map (\<lambda>fn. fn p g) pre = map Inr xs"
    by (cases rs) auto
  with Cons show ?case by (cases acc) (simp add: Let_def)
qed


lemma BaseRubric_ComputeReward_value:
  assumes ok: "map (\<lambda>fn. fn parsed groundTruth) (rewardFuncs r) = map Inr rewards"
    and ws: "ws = effectiveWeights r"
  shows "BaseRubric_ComputeReward r parsed groundTruth =
           Inr (if 0 < sum_list ws then sum_list (map2 (*) rewards ws) / sum_list ws else 0)"
proof (cases "rewardFuncs r = []")
  case True
  then show ?thesis using ok ws by (simp add: BaseRubric_ComputeReward_def effectiveWeights_def)
next
  case False
  then show ?thesis
    using ComputeReward_loop_ok[OF ok, of "rewardWeights r" 0 0 0] ws
    by (simp add: BaseRubric_ComputeReward_def effectiveWeights_def)
qed




subsection \<open>Failing reward functions and failing members\<close>

lemma foldl_add_sum_list: "foldl (+) (a::real) ws = a + sum_list ws"
  by (induction ws arbitrary: a) (auto simp: algebra_simps)

lemma RubricGroup_loop_scored:
  "RubricGroup_loop p g ms (ts, tw) =
     (ts + (\<Sum>(score, m) \<leftarrow> scored p g ms. score * memberWeight m),
      tw + (\<Sum>(score, m) \<leftarrow> scored p g ms. memberWeight m))"
proof (induction ms arbitrary: ts tw)
  case Nil
  then show ?case by simp
next
  case (Cons m ms)
  show ?case
  proof (cases "ComputeReward m p g")
    case (Inl e)
    then show ?thesis using Cons.IH by simp
  next
    case (Inr score)
    have w: "foldl (+) 0 (GetRewardWeights m) = sum_list (GetRewardWeights m)"
      by (simp add: foldl_add_sum_list)
    show ?thesis
    proof (cases "GetRewardWeights m = []")
      case True
      then show ?thesis
        using Cons.IH[of "ts + score" "tw + 1"] Inr
        by (simp add: Let_def memberWeight_def algebra_simps)
    next
      case False
      then show ?thesis
        using Cons.IH[of "ts + score * sum_list (GetRewardWeights m)"
            "tw + sum_list (GetRewardWeights m)"] Inr
        by (simp add: Let_def w memberWeight_def algebra_simps)
    qed
  qed
qed

lemma scored_all_fail: "\<forall>m \<in> set ms. isl (ComputeReward m p g) \<Longrightarrow> scored p g ms = []"
  by (induction ms) (auto split: sum.splits)

text \<open>
  C4.  In a base rubric the first reward function that fails ends \<^verbatim>\<open>ComputeReward\<close>,
  which returns that function's error.  \<^verbatim>\<open>RubricGroup.ComputeReward\<close> never returns an
  error: it passes over the members that fail and returns the sum of score times
  weight over the other members divided by the sum of their weights, where a member's
  weight is the sum of its own function weights, or 1.0 for a member without weights;
  the result is 0 when that total is not positive, and so when every member fails.
\<close>

theorem C4_error_handling:
  "(\<forall>pre fn post rs e.
      rewardFuncs r = pre @ fn # post \<and> map (\<lambda>f. f parsed groundTruth) pre = map Inr rs \<and>
      fn parsed groundTruth = Inl e \<longrightarrow>
      BaseRubric_ComputeReward r parsed groundTruth = Inl e) \<and>
   RubricGroup_ComputeReward G parsed groundTruth =
     Inr (if 0 < (\<Sum>(score, m) \<leftarrow> scored parsed groundTruth (rubrics G). memberWeight m)
          then (\<Sum>(score, m) \<leftarrow> scored parsed groundTruth (rubrics G). score * memberWeight m) /
               (\<Sum>(score, m) \<leftarrow> scored parsed groundTruth (rubrics G). memberWeight m)
          else 0) \<and>
   ((\<forall>m \<in> set (rubrics G). isl (ComputeReward m parsed groundTruth)) \<longrightarrow>
    RubricGroup_ComputeReward G parsed groundTruth = Inr 0)"
proof (intro conjI allI impI)
  fix pre fn post rs e
  assume h: "rewardFuncs r = pre @ fn # post \<and> map (\<lambda>f. f parsed groundTruth) pre = map Inr rs \<and>
      fn parsed groundTruth = Inl e"
  then show "BaseRubric_ComputeReward r parsed groundTruth = Inl e"
    using ComputeReward_loop_first_error[of parsed groundTruth pre rs fn e "rewardWeights r" 0 post "(0, 0)"]
    by (simp add: BaseRubric_ComputeReward_def)
next
  show "RubricGroup_ComputeReward G parsed groundTruth =
     Inr (if 0 < (\<Sum>(score, m) \<leftarrow> scored parsed groundTruth (rubrics G). memberWeight m)
          then (\<Sum>(score, m) \<leftarrow> scored parsed groundTruth (rubrics G). score * memberWeight m) /
               (\<Sum>(score, m) \<leftarrow> scored parsed groundTruth (rubrics G). memberWeight m)
          else 0)"
    by (simp add: RubricGroup_ComputeReward_def RubricGroup_loop_scored)
next
  assume "\<forall>m \<in> set (rubrics G). isl (ComputeReward m parsed groundTruth)"
  then show "RubricGroup_ComputeReward G parsed groundTruth = Inr 0"
    by (simp add: RubricGroup_ComputeReward_def RubricGroup_loop_scored scored_all_fail)
qed

theorem C4_witness:
  "BaseRubric_ComputeReward oneFailing [] [] = Inl (GoError ''boom'') \<and>
   RubricGroup_ComputeReward partlyFailingGroup [] [] = Inr (5 / 8) \<and>
   RubricGroup_ComputeReward
     \<lparr>rubrics = [fixedRubric [1] (Inl (GoError ''x'')), BaseRubric_Rubric oneFailing],
      rubricNames = [''a'', ''b''], mergeWeights = False\<rparr> [] [] = Inr 0"
proof -
  have a: "rewardFuncs oneFailing = [always 1] @ failing ''boom'' # [always 0] \<and>
      map (\<lambda>f. f [] []) [always 1] = map Inr [1] \<and> failing ''boom'' [] [] = Inl (GoError ''boom'')"
    by (simp add: oneFailing_def always_def failing_def)
  have 1: "BaseRubric_ComputeReward oneFailing [] [] = Inl (GoError ''boom'')"
    using C4_error_handling[of oneFailing "[]" "[]" partlyFailingGroup] a by blast
  have 2: "RubricGroup_ComputeReward partlyFailingGroup [] [] = Inr (5 / 8)"
    using C4_error_handling[of oneFailing "[]" "[]" partlyFailingGroup]
    by (simp add: partlyFailingGroup_def fixedRubric_def BaseRubric_Rubric_def
        BaseRubric_ComputeReward_def always_def memberWeight_def Let_def)
  let ?G = "\<lparr>rubrics = [fixedRubric [1] (Inl (GoError ''x'')), BaseRubric_Rubric oneFailing],
      rubricNames = [''a'', ''b''], mergeWeights = False\<rparr>"
  have b: "\<forall>m \<in> set (rubrics ?G). isl (ComputeReward m [] [])"
    using 1 by (simp add: fixedRubric_def BaseRubric_Rubric_def)
  have 3: "RubricGroup_ComputeReward ?G [] [] = Inr 0"
    using C4_error_handling[of oneFailing "[]" "[]" ?G] b by blast
  show ?thesis using 1 2 3 by simp
qed

text \<open>
  A member without weights does not have weight 0, the sum of its weights: with a
  member without weights that scores 1 and a member with the weight 1 that scores 0,
  the group returns 1/2, and the quotient of the weighted sums is 0.
\<close>

theorem C4_counterexample:
  "RubricGroup_ComputeReward unweightedGroup [] [] = Inr (1 / 2) \<and>
   weightNormalizedSum [] [] (rubrics unweightedGroup) = 0"
  by (simp add: RubricGroup_ComputeReward_def unweightedGroup_def fixedRubric_def
      weightNormalizedSum_def Let_def)

subsection \<open>The multi-turn loop\<close>

text \<open>
  \<^const>\<open>rollout_loop\<close> is a total function: its termination was proved with the
  measure \<open>maxTurns - turn\<close>, whatever the environment and the client answer.  A run
  that returns has gone through no turn, through one turn, or through a turn and an
  environment response followed by a run from the next turn.
\<close>

lemma rollout_loop_cases:
  assumes "rollout_loop env client mt (wm, st, cpl, turn, w) = Inr (wm', cpl')"
  shows "(wm' = wm \<and> cpl' = cpl) \<or>
         (turn < mt \<and> (\<exists>response. wm' = wm @ [\<lparr>Role = ''assistant'', Content = response\<rparr>] \<and>
             cpl' = cpl @ [\<lparr>Role = ''assistant'', Content = response\<rparr>])) \<or>
         (turn + 1 < mt \<and> (\<exists>response envMsg newState w3 st2 w4.
             EnvResponse env w3 (wm @ [\<lparr>Role = ''assistant'', Content = response\<rparr>]) st2 =
               (Inr (envMsg, newState), w4) \<and>
             rollout_loop env client mt
               (wm @ [\<lparr>Role = ''assistant'', Content = response\<rparr>] @ [envMsg], newState,
                cpl @ [\<lparr>Role = ''assistant'', Content = response\<rparr>] @ [envMsg], turn + 1, w4) =
               Inr (wm', cpl')))"
  using assms
  by (subst (asm) rollout_loop.simps)
     (auto simp: Let_def split: if_splits prod.splits sum.splits)

lemma rollout_loop_bound:
  assumes "rollout_loop env client mt (wm, st, cpl, turn, w) = Inr (wm', cpl')"
    and "k = nat (mt - turn)"
  shows "\<exists>ext. wm' = wm @ ext \<and> cpl' = cpl @ ext \<and> length ext \<le> 2 * k - 1 \<and>
           (\<forall>i<length ext. even i \<longrightarrow> Role (ext ! i) = ''assistant'') \<and>
           (envNotAssistant env \<longrightarrow> assistantCount ext \<le> k)"
  using assms
proof (induction k arbitrary: wm st cpl turn w)
  case 0
  then have "\<not> turn < mt" by simp
  with 0 rollout_loop_cases[OF "0.prems"(1)] show ?case
    by (auto simp: assistantCount_def)
next
  case (Suc k)
  let ?a = "\<lambda>response. \<lparr>Role = ''assistant'', Content = response\<rparr>"
  from rollout_loop_cases[OF Suc.prems(1)]
  consider (none) "wm' = wm" "cpl' = cpl"
    | (one) response where "wm' = wm @ [?a response]" "cpl' = cpl @ [?a response]"
    | (more) response envMsg newState w3 st2 w4 where "turn + 1 < mt"
        "EnvResponse env w3 (wm @ [?a response]) st2 = (Inr (envMsg, newState), w4)"
        "rollout_loop env client mt (wm @ [?a response] @ [envMsg], newState,
           cpl @ [?a response] @ [envMsg], turn + 1, w4) = Inr (wm', cpl')"
    by blast
  then show ?case
  proof cases
    case none
    then show ?thesis by (auto simp: assistantCount_def)
  next
    case one
    then show ?thesis
      by (intro exI[of _ "[?a response]"]) (auto simp: assistantCount_def)
  next
    case more
    have k: "k = nat (mt - (turn + 1))" using Suc.prems(2) by simp
    from Suc.IH[OF more(3) k] obtain ext where
      ext: "wm' = (wm @ [?a response] @ [envMsg]) @ ext"
        "cpl' = (cpl @ [?a response] @ [envMsg]) @ ext"
        "length ext \<le> 2 * k - 1"
        "\<forall>i<length ext. even i \<longrightarrow> Role (ext ! i) = ''assistant''"
        "envNotAssistant env \<longrightarrow> assistantCount ext \<le> k"
      by blast
    have kpos: "0 < k" using more(1) k by simp
    have ev: "\<forall>i<length (?a response # envMsg # ext). even i \<longrightarrow>
        Role ((?a response # envMsg # ext) ! i) = ''assistant''"
    proof (intro allI impI)
      fix i assume i: "i < length (?a response # envMsg # ext)" "even i"
      show "Role ((?a response # envMsg # ext) ! i) = ''assistant''"
      proof (cases i)
        case 0
        then show ?thesis by simp
      next
        case (Suc j)
        with i obtain j' where "j = Suc j'" by (cases j) auto
        with Suc i ext(4) show ?thesis by simp
      qed
    qed
    have "Role envMsg \<noteq> ''assistant''" if "envNotAssistant env"
      using that more(2) unfolding envNotAssistant_def by blast
    then have na: "envNotAssistant env \<longrightarrow> assistantCount (?a response # envMsg # ext) \<le> Suc k"
      using ext(5) by (auto simp: assistantCount_def)
    show ?thesis
      using ext(1,2,3) kpos ev na
      by (intro exI[of _ "?a response # envMsg # ext"]) simp
  qed
qed

text \<open>
  C1.  For every environment, client, initial message list and \<open>maxTurns\<close>,
  \<^verbatim>\<open>BaseMultiTurnRollout\<close> terminates, with an error of the client or of the environment
  or with a rollout.  The messages of the rollout are the initial messages followed by
  at most \<open>2 * k - 1\<close> appended messages, where \<open>k\<close> is \<open>maxTurns\<close>, or 10 when
  \<open>maxTurns\<close> is not positive.  The assistant messages of the loop are the appended
  messages at the even offsets, so there are at most \<open>k\<close> of them; when the
  environment never answers in the role of the assistant, at most \<open>k\<close> appended
  messages have that role.  Nothing is assumed about the completion predicate.
  \<^verbatim>\<open>NewMultiTurnEnv\<close> replaces a \<open>maxTurns\<close> that is not positive by 10 as well.
\<close>

theorem C1_rollout_bounded:
  assumes "BaseMultiTurnRollout env client w (PromptMessages messages) answer maxTurns = Inr rollout"
    and "k = nat (if maxTurns \<le> 0 then 10 else maxTurns)"
  shows "\<exists>ext. Messages rollout = messages @ ext \<and> length ext \<le> 2 * k - 1 \<and>
           (\<forall>i<length ext. even i \<longrightarrow> Role (ext ! i) = ''assistant'') \<and>
           (envNotAssistant env \<longrightarrow> assistantCount ext \<le> k) \<and>
           MaxTurns (NewMultiTurnEnv maxTurns) = int k"
proof -
  from assms(1) obtain wm cpl where
    loop: "rollout_loop env client (if maxTurns \<le> 0 then 10 else maxTurns)
             (messages, [''answer'' \<mapsto> VString answer], [], 0, w) = Inr (wm, cpl)"
    and r: "Messages rollout = wm"
    by (auto simp: BaseMultiTurnRollout_def Let_def split: sum.splits)
  have "MaxTurns (NewMultiTurnEnv maxTurns) = int k"
    using assms(2) by (simp add: NewMultiTurnEnv_def)
  with rollout_loop_bound[OF loop, of k] assms(2) r show ?thesis by auto
qed

theorem C1_witness:
  "\<exists>rollout ext.
     BaseMultiTurnRollout neverDone (sameReply ''ok'') ()
       (PromptMessages [\<lparr>Role = ''user'', Content = ''q''\<rparr>]) ''a'' 0 = Inr rollout \<and>
     Messages rollout = [\<lparr>Role = ''user'', Content = ''q''\<rparr>] @ ext \<and>
     length ext \<le> 19 \<and> assistantCount ext \<le> 10 \<and> length (Messages rollout) = 20"
proof -
  define r where "r = BaseMultiTurnRollout neverDone (sameReply ''ok'') ()
       (PromptMessages [\<lparr>Role = ''user'', Content = ''q''\<rparr>]) ''a'' 0"
  have "case r of Inl err \<Rightarrow> False | Inr rollout \<Rightarrow> length (Messages rollout) = 20"
    unfolding r_def by code_simp
  then obtain rollout where ro: "r = Inr rollout" "length (Messages rollout) = 20"
    by (cases r) auto
  have na: "envNotAssistant neverDone"
    by (simp add: envNotAssistant_def neverDone_def)
  from C1_rollout_bounded[OF ro(1)[unfolded r_def], of 10] na ro show ?thesis
    unfolding r_def by auto
qed

subsection \<open>Routing in an environment group\<close>

lemma SplitN2_colon: "c \<notin> set task \<Longrightarrow> SplitN2 (task @ c # rest) c = [task, rest]"
proof -
  assume h: "c \<notin> set task"
  then have "takeWhile (\<lambda>x. x \<noteq> c) (task @ c # rest) = task"
    by (induction task) auto
  moreover from h have "dropWhile (\<lambda>x. x \<noteq> c) (task @ c # rest) = c # rest"
    by (induction task) auto
  ultimately show ?thesis by (simp add: SplitN2_def)
qed

lemma SplitN2_none: "c \<notin> set s \<Longrightarrow> SplitN2 s c = [s]"
  by (simp add: SplitN2_def)

text \<open>
  C6.  \<^verbatim>\<open>EnvGroup.Rollout\<close> splits the ground truth at its first colon: for a text
  \<open>task:rest\<close> whose \<open>task\<close> has no colon it calls the sub-environment registered
  under \<open>task\<close> with the answer \<open>rest\<close>, and returns the error ``unknown task''
  when none is registered under that name.  A ground truth without a colon goes,
  unchanged, to the environment of the first registered name; with the names
  registered in the order math, trivia this is the environment of math.  The ground
  truth \<open>math:100\<close> reaches that environment as \<open>100\<close>.
\<close>

theorem C6_routing:
  "(CHR '':'' \<notin> set task \<longrightarrow>
      EnvGroup_Rollout g prompt (task @ '':'' @ rest) =
        (case envs g task of
           None \<Rightarrow> Inl (GoError (''unknown task: '' @ task))
         | Some env \<Rightarrow> env prompt rest)) \<and>
   (CHR '':'' \<notin> set answer \<and> envNames g = name # names \<longrightarrow>
      EnvGroup_Rollout g prompt answer =
        (case envs g name of
           None \<Rightarrow> Inl (GoError (''unknown task: '' @ name))
         | Some env \<Rightarrow> env prompt answer)) \<and>
   (CHR '':'' \<notin> set answer \<longrightarrow>
      EnvGroup_Rollout (NewEnvGroup [(''math'', E1), (''trivia'', E2)]) prompt answer =
        E1 prompt answer) \<and>
   EnvGroup_Rollout (NewEnvGroup [(''math'', E1), (''trivia'', E2)]) prompt ''math:100'' =
     E1 prompt ''100''"
proof (intro conjI impI)
  assume "CHR '':'' \<notin> set task"
  then show "EnvGroup_Rollout g prompt (task @ '':'' @ rest) =
        (case envs g task of
           None \<Rightarrow> Inl (GoError (''unknown task: '' @ task))
         | Some env \<Rightarrow> env prompt rest)"
    using SplitN2_colon[of "CHR '':''" task rest]
    by (simp add: EnvGroup_Rollout_def parseTaskAnswer_def)
next
  assume "CHR '':'' \<notin> set answer \<and> envNames g = name # names"
  then show "EnvGroup_Rollout g prompt answer =
        (case envs g name of
           None \<Rightarrow> Inl (GoError (''unknown task: '' @ name))
         | Some env \<Rightarrow> env prompt answer)"
    by (simp add: EnvGroup_Rollout_def parseTaskAnswer_def SplitN2_none)
next
  assume "CHR '':'' \<notin> set answer"
  then show "EnvGroup_Rollout (NewEnvGroup [(''math'', E1), (''trivia'', E2)]) prompt answer =
        E1 prompt answer"
    by (simp add: EnvGroup_Rollout_def parseTaskAnswer_def SplitN2_none NewEnvGroup_def)
next
  show "EnvGroup_Rollout (NewEnvGroup [(''math'', E1), (''trivia'', E2)]) prompt ''math:100'' =
     E1 prompt ''100''"
    using SplitN2_colon[of "CHR '':''" "''math''" "''100''"]
    by (simp add: EnvGroup_Rollout_def parseTaskAnswer_def NewEnvGroup_def)
qed

theorem C6_witness:
  "EnvGroup_Rollout (NewEnvGroup [(''math'', namedEnv ''E1''), (''trivia'', namedEnv ''E2'')])
     (PromptString ''q'') ''trivia:a:b'' =
     Inr \<lparr>Messages = [], Response = ''E2 got a:b'', Score = 0\<rparr> \<and>
   EnvGroup_Rollout (NewEnvGroup [(''math'', namedEnv ''E1''), (''trivia'', namedEnv ''E2'')])
     (PromptString ''q'') ''chess:e4'' = Inl (GoError ''unknown task: chess'') \<and>
   EnvGroup_Rollout (NewEnvGroup [(''math'', namedEnv ''E1''), (''trivia'', namedEnv ''E2'')])
     (PromptString ''q'') ''42'' =
     Inr \<lparr>Messages = [], Response = ''E1 got 42'', Score = 0\<rparr>"
proof -
  let ?g = "NewEnvGroup [(''math'', namedEnv ''E1''), (''trivia'', namedEnv ''E2'')]"
  have 1: "CHR '':'' \<notin> set ''trivia''" and 2: "CHR '':'' \<notin> set ''chess''"
    and 3: "CHR '':'' \<notin> set ''42'' \<and> envNames ?g = ''math'' # [''trivia'']"
    by (simp_all add: NewEnvGroup_def)
  have a: "EnvGroup_Rollout ?g (PromptString ''q'') ''trivia:a:b'' =
      Inr \<lparr>Messages = [], Response = ''E2 got a:b'', Score = 0\<rparr>"
    using C6_routing[of "''trivia''" ?g "PromptString ''q''" "''a:b''"] 1
    by (simp add: NewEnvGroup_def namedEnv_def)
  have b: "EnvGroup_Rollout ?g (PromptString ''q'') ''chess:e4'' = Inl (GoError ''unknown task: chess'')"
    using C6_routing[of "''chess''" ?g "PromptString ''q''" "''e4''"] 2
    by (simp add: NewEnvGroup_def)
  have c: "EnvGroup_Rollout ?g (PromptString ''q'') ''42'' =
      Inr \<lparr>Messages = [], Response = ''E1 got 42'', Score = 0\<rparr>"
    using C6_routing[of _ ?g "PromptString ''q''" _ "''42''" "''math''" "[''trivia'']"] 3
    by (simp add: NewEnvGroup_def namedEnv_def)
  show ?thesis using a b c by simp
qed

subsection \<open>Comparison of mathematical answers\<close>

lemma decimalParse_1000_0: "decimalParse ''1000.0'' = Some 1000"
  by (simp add: decimalParse_def parseUnsigned_def digitVal_def Let_def)
lemma decimalParse_1000: "decimalParse ''1000'' = Some 1000"
  by (simp add: decimalParse_def parseUnsigned_def digitVal_def Let_def)
lemma decimalParse_letters: "decimalParse ''abc'' = None" "decimalParse ''abd'' = None"
  by (simp_all add: decimalParse_def parseUnsigned_def digitVal_def Let_def)

lemma TrimSpace_examples: "TrimSpace ''1,000.0'' = ''1,000.0''" "TrimSpace ''1000'' = ''1000''"
  "TrimSpace ''abc'' = ''abc''" "TrimSpace ''abd'' = ''abd''"
  by code_simp+

text \<open>
  C9.  \<^verbatim>\<open>CompareMathAnswers\<close> is symmetric, whatever the floating-point library does.
  \<^verbatim>\<open>CompareMathAnswers("1,000.0", "1000")\<close> is true for every library that parses
  \<open>1000.0\<close> and \<open>1000\<close> to numbers it formats alike, and
  \<^verbatim>\<open>CompareMathAnswers("abc", "abd")\<close> is false for every library that parses neither
  \<open>abc\<close> nor \<open>abd\<close>; both conditions hold of \<^verbatim>\<open>strconv\<close>.
\<close>

theorem C9_symmetric:
  "CompareMathAnswers F a b = CompareMathAnswers F b a \<and>
   (ParseFloat F ''1000.0'' = Some x \<and> ParseFloat F ''1000'' = Some y \<and>
      FormatFloat F x = FormatFloat F y \<longrightarrow>
    CompareMathAnswers F ''1,000.0'' ''1000'') \<and>
   (ParseFloat F ''abc'' = None \<and> ParseFloat F ''abd'' = None \<longrightarrow>
    \<not> CompareMathAnswers F ''abc'' ''abd'')"
proof (intro conjI impI)
  show "CompareMathAnswers F a b = CompareMathAnswers F b a"
    by (auto simp: CompareMathAnswers_def Let_def split: option.splits)
next
  assume "ParseFloat F ''1000.0'' = Some x \<and> ParseFloat F ''1000'' = Some y \<and>
      FormatFloat F x = FormatFloat F y"
  then show "CompareMathAnswers F ''1,000.0'' ''1000''"
    by (simp add: CompareMathAnswers_def NormalizeNumber_def RemoveAll_def TrimSpace_examples Let_def)
next
  assume "ParseFloat F ''abc'' = None \<and> ParseFloat F ''abd'' = None"
  then show "\<not> CompareMathAnswers F ''abc'' ''abd''"
    by (simp add: CompareMathAnswers_def NormalizeNumber_def RemoveAll_def TrimSpace_examples Let_def)
qed

theorem C9_witness:
  "CompareMathAnswers DecimalFloat ''1,000.0'' ''1000'' \<and>
   \<not> CompareMathAnswers DecimalFloat ''abc'' ''abd'' \<and>
   CompareMathAnswers DecimalFloat ''1000'' ''1,000.0''"
proof -
  have p: "ParseFloat DecimalFloat ''1000.0'' = Some 1000 \<and>
      ParseFloat DecimalFloat ''1000'' = Some 1000 \<and>
      FormatFloat DecimalFloat 1000 = FormatFloat DecimalFloat 1000"
    by (simp add: DecimalFloat_def decimalParse_1000_0 decimalParse_1000)
  have q: "ParseFloat DecimalFloat ''abc'' = None \<and> ParseFloat DecimalFloat ''abd'' = None"
    by (simp add: DecimalFloat_def decimalParse_letters)
  have 1: "CompareMathAnswers DecimalFloat ''1,000.0'' ''1000''"
    using C9_symmetric[of DecimalFloat _ _ 1000 1000] p by blast
  have 2: "\<not> CompareMathAnswers DecimalFloat ''abc'' ''abd''"
    using C9_symmetric[of DecimalFloat] q by blast
  have 3: "CompareMathAnswers DecimalFloat ''1000'' ''1,000.0''"
    using C9_symmetric[of DecimalFloat "''1000''" "''1,000.0''"] 1 by blast
  show ?thesis using 1 2 3 by simp
qed

subsection \<open>The tagged-field parser\<close>



lemma re_match_Lit1 [simp]: "re_match [Lit l] s = (if prefix l s then Some [] else None)"
  by simp



































lemma TrimRight_Nil [simp]: "TrimRight [] = []"
  by (simp add: TrimRight.simps[of "[]"] trailingSpace_def spaceRunes_def)














subsection \<open>The tool rubric\<close>

text \<open>
  \<^verbatim>\<open>NewToolRubric\<close> starts from \<^verbatim>\<open>NewMultiMetricRubric\<close>, which copies the rubric of
  \<^verbatim>\<open>NewBaseRubric\<close> with its exact-match function of weight 1.0, and appends the three
  named metrics.  The rubric therefore has four reward functions, of total weight 2.0,
  and three named metrics.
\<close>

lemma NewToolRubric_lists:
  assumes "NewToolRubric unmarshal toolList tagParser envParser = Inr r"
  shows "rewardFuncs r = [exactMatchReward, correctAnswerFunc tagParser, formatFunc tagParser,
                          toolUsageFunc unmarshal toolList]"
    and "rewardWeights r = [1, 0.6, 0.2, 0.2]"
    and "dom (metrics r) = {''correct_answer'', ''format'', ''tool_usage''}"
  using assms
  by (auto simp: NewToolRubric_def AddMetric_def NewMultiMetricRubric_def NewBaseRubric_def
      MultiMetricRubric.extend_def MultiMetricRubric.defs Let_def split: if_splits)

lemma not_isl_Inr: "\<not> isl x \<Longrightarrow> \<exists>v. x = Inr v"
  by (cases x) auto

lemma metric_results:
  "\<not> isl (exactMatchReward parsed gt)"
  "\<not> isl (correctAnswerFunc tagParser parsed gt)"
  "\<not> isl (formatFunc (Some p) parsed gt)"
  "\<not> isl (toolUsageFunc unmarshal toolList parsed gt)"
  by (simp_all add: exactMatchReward_def correctAnswerFunc_def formatFunc_def evaluateFormat_def
      toolUsageFunc_def evaluateToolUsage_def Let_def)

lemma ToolRubric_four_functions:
  assumes "NewToolRubric unmarshal toolList tagParser envParser = Inr r"
  shows "rewardFuncs r = [exactMatchReward, correctAnswerFunc tagParser, formatFunc tagParser,
                          toolUsageFunc unmarshal toolList] \<and>
         rewardWeights r = [1, 0.6, 0.2, 0.2] \<and>
         dom (metrics r) = {''correct_answer'', ''format'', ''tool_usage''} \<and>
         (tagParser \<noteq> None \<longrightarrow>
          (\<exists>e c f t.
             exactMatchReward parsed groundTruth = Inr e \<and>
             correctAnswerFunc tagParser parsed groundTruth = Inr c \<and>
             formatFunc tagParser parsed groundTruth = Inr f \<and>
             toolUsageFunc unmarshal toolList parsed groundTruth = Inr t \<and>
             BaseRubric_ComputeReward r parsed groundTruth =
               Inr ((e + 0.6 * c + 0.2 * f + 0.2 * t) / 2)))"
proof -
  note l = NewToolRubric_lists[OF assms]
  have "\<exists>e c f t.
             exactMatchReward parsed groundTruth = Inr e \<and>
             correctAnswerFunc tagParser parsed groundTruth = Inr c \<and>
             formatFunc tagParser parsed groundTruth = Inr f \<and>
             toolUsageFunc unmarshal toolList parsed groundTruth = Inr t \<and>
             BaseRubric_ComputeReward r parsed groundTruth =
               Inr ((e + 0.6 * c + 0.2 * f + 0.2 * t) / 2)" if "tagParser \<noteq> None"
  proof -
    from that obtain p where p: "tagParser = Some p" by auto
    obtain e c f t where v: "exactMatchReward parsed groundTruth = Inr e"
      "correctAnswerFunc tagParser parsed groundTruth = Inr c"
      "formatFunc tagParser parsed groundTruth = Inr f"
      "toolUsageFunc unmarshal toolList parsed groundTruth = Inr t"
      using metric_results[THEN not_isl_Inr] p by metis
    have ok: "map (\<lambda>fn. fn parsed groundTruth) (rewardFuncs r) = map Inr [e, c, f, t]"
      by (simp add: l(1) v)
    have ws: "[1, 0.6, 0.2, 0.2] = effectiveWeights r"
      by (simp add: effectiveWeights_def weightAt_def l upt_conv_Cons)
    have "BaseRubric_ComputeReward r parsed groundTruth = Inr ((e + 0.6 * c + 0.2 * f + 0.2 * t) / 2)"
      using BaseRubric_ComputeReward_value[OF ok ws] by (simp add: algebra_simps)
    with v show ?thesis by blast
  qed
  with l show ?thesis by blast
qed

lemma sample_metrics:
  "exactMatchReward ''4'' ''4'' = Inr 1"
  "correctAnswerFunc (Some toolParser) ''4'' ''4'' = Inr 1"
  "formatFunc (Some toolParser) ''4'' ''4'' = Inr (3 / 10)"
  "toolUsageFunc rejectAll [''calculator''] ''4'' ''4'' = Inr (1 / 2)"
  by code_simp+

lemma ToolRubric_four_functions_example:
  "\<exists>r. NewToolRubric rejectAll [''calculator''] (Some toolParser) None = Inr r \<and>
       rewardWeights r = [1, 0.6, 0.2, 0.2] \<and>
       BaseRubric_ComputeReward r ''4'' ''4'' = Inr (22 / 25)"
proof -
  obtain r where r: "NewToolRubric rejectAll [''calculator''] (Some toolParser) None = Inr r"
    by (simp add: NewToolRubric_def)
  from ToolRubric_four_functions[OF r, of "''4''" "''4''"] obtain e c f t where
    w: "rewardWeights r = [1, 0.6, 0.2, 0.2]"
    and v: "exactMatchReward ''4'' ''4'' = Inr e"
      "correctAnswerFunc (Some toolParser) ''4'' ''4'' = Inr c"
      "formatFunc (Some toolParser) ''4'' ''4'' = Inr f"
      "toolUsageFunc rejectAll [''calculator''] ''4'' ''4'' = Inr t"
    and cr: "BaseRubric_ComputeReward r ''4'' ''4'' = Inr ((e + 0.6 * c + 0.2 * f + 0.2 * t) / 2)"
    by auto
  from v have "e = 1" "c = 1" "f = 3 / 10" "t = 1 / 2"
    by (simp_all add: sample_metrics)
  with cr have "BaseRubric_ComputeReward r ''4'' ''4'' = Inr (22 / 25)" by simp
  with r w show ?thesis by blast
qed

text \<open>
  C5.  The specification gives a new tool rubric exactly the three reward functions
  \<open>correct_answer\<close>, \<open>format\<close> and \<open>tool_usage\<close> with the weights 0.6, 0.2 and
  0.2, and makes \<^verbatim>\<open>ComputeReward\<close> their weighted average.  In the code the rubric
  built for one tool and the think/tool-or-answer parser has four reward functions, with the weights
  1.0, 0.6, 0.2 and 0.2.  For the response \<^verbatim>\<open><answer>4</answer>\<close> and the ground truth
  \<open>4\<close> the four functions return 0, 1, 0.8 and 0.5, and \<^verbatim>\<open>ComputeReward\<close> returns 0.43;
  the weighted average of the three named metrics is 0.86.
\<close>

theorem C5_tool_rubric_has_four:
  "case NewToolRubric rejectAll [''calculator''] (Some toolParser) None of
     Inl err \<Rightarrow> False
   | Inr r \<Rightarrow> length (rewardFuncs r) = 4 \<and> rewardWeights r = [1, 3 / 5, 1 / 5, 1 / 5] \<and>
       map (\<lambda>fn. fn ''<answer>4</answer>'' ''4'') (rewardFuncs r) =
         [Inr 0, Inr 1, Inr (4 / 5), Inr (1 / 2)] \<and>
       BaseRubric_ComputeReward r ''<answer>4</answer>'' ''4'' = Inr (43 / 100)"
  by code_simp

subsection \<open>Scoring after the multi-turn loop\<close>

text \<open>
  The loop leaves the score at 0.  \<^verbatim>\<open>ToolEnv.Rollout\<close> and \<^verbatim>\<open>CodeMathEnv.Rollout\<close>
  return the result of the loop as it is, so their rollouts always have the score 0.
\<close>

lemma BaseMultiTurnRollout_Score:
  "BaseMultiTurnRollout env client w prompt answer maxTurns = Inr rollout \<Longrightarrow> Score rollout = 0"
  by (auto simp: BaseMultiTurnRollout_def Let_def split: prompt.splits sum.splits)

lemma unscored_rollouts:
  "ToolEnv_Rollout e client w prompt answer = Inr rollout \<Longrightarrow> Score rollout = 0"
  "CodeMathEnv_Rollout e' client w prompt answer = Inr rollout \<Longrightarrow> Score rollout = 0"
  by (auto simp: ToolEnv_Rollout_def CodeMathEnv_Rollout_def dest: BaseMultiTurnRollout_Score)

text \<open>
  C2.  \<^verbatim>\<open>DialogMultiTurnEnv.Rollout\<close>, when a parser is set and the final response is
  not empty, parses the final response again; when that fails it returns an error,
  and otherwise, when a rubric is set, it returns the error of the rubric or the
  rollout of the loop with the score replaced by the rubric's reward.
  \<^verbatim>\<open>DoubleCheckEnv.Rollout\<close>, when a parser is set, does the same with the last assistant
  message of the transcript, except that it returns the rollout of the loop, with its
  score 0 and without an error, when the parser or the rubric fails.
\<close>

theorem C2_rescoring:
  "(BaseMultiTurnRollout (Dialog_env e) client w prompt answer (MaxTurns e) = Inr rollout \<and>
    parser e = Some p \<and> Response rollout \<noteq> [] \<longrightarrow>
      Score rollout = 0 \<and>
      (\<forall>err. Parse p (Response rollout) = Inl err \<longrightarrow>
         Dialog_Rollout e client w prompt answer = Inl (wrap ''failed to parse response: '' err)) \<and>
      (\<forall>parsed rb. Parse p (Response rollout) = Inr parsed \<and> rubric e = Some rb \<longrightarrow>
         Dialog_Rollout e client w prompt answer =
           (case ComputeReward rb parsed answer of
              Inl err \<Rightarrow> Inl (wrap ''failed to compute reward: '' err)
            | Inr score \<Rightarrow> Inr (rollout\<lparr>Score := score\<rparr>)))) \<and>
   (BaseMultiTurnRollout (DoubleCheck_env d) client w prompt answer (MaxTurns d) = Inr rollout' \<and>
    parser d = Some p' \<and> lastAssistant (Messages rollout') \<noteq> [] \<longrightarrow>
      Score rollout' = 0 \<and>
      (\<forall>err. Parse p' (lastAssistant (Messages rollout')) = Inl err \<longrightarrow>
         DoubleCheck_Rollout d client w prompt answer = Inr rollout') \<and>
      (\<forall>parsed rb. Parse p' (lastAssistant (Messages rollout')) = Inr parsed \<and> rubric d = Some rb \<longrightarrow>
         DoubleCheck_Rollout d client w prompt answer =
           (case ComputeReward rb parsed answer of
              Inl err \<Rightarrow> Inr rollout'
            | Inr score \<Rightarrow> Inr (rollout'\<lparr>Score := score\<rparr>))))"
proof (intro conjI impI)
  assume h: "BaseMultiTurnRollout (Dialog_env e) client w prompt answer (MaxTurns e) = Inr rollout \<and>
    parser e = Some p \<and> Response rollout \<noteq> []"
  then show "Score rollout = 0" by (auto dest: BaseMultiTurnRollout_Score)
  from h show "\<forall>err. Parse p (Response rollout) = Inl err \<longrightarrow>
         Dialog_Rollout e client w prompt answer = Inl (wrap ''failed to parse response: '' err)"
    by (simp add: Dialog_Rollout_def)
  from h show "\<forall>parsed rb. Parse p (Response rollout) = Inr parsed \<and> rubric e = Some rb \<longrightarrow>
         Dialog_Rollout e client w prompt answer =
           (case ComputeReward rb parsed answer of
              Inl err \<Rightarrow> Inl (wrap ''failed to compute reward: '' err)
            | Inr score \<Rightarrow> Inr (rollout\<lparr>Score := score\<rparr>))"
    by (simp add: Dialog_Rollout_def)
next
  assume h: "BaseMultiTurnRollout (DoubleCheck_env d) client w prompt answer (MaxTurns d) = Inr rollout' \<and>
    parser d = Some p' \<and> lastAssistant (Messages rollout') \<noteq> []"
  then show "Score rollout' = 0" by (auto dest: BaseMultiTurnRollout_Score)
  from h have ne: "length (Messages rollout') > 0"
    by (auto simp: lastAssistant_def)
  from h ne show "\<forall>err. Parse p' (lastAssistant (Messages rollout')) = Inl err \<longrightarrow>
         DoubleCheck_Rollout d client w prompt answer = Inr rollout'"
    by (simp add: DoubleCheck_Rollout_def Let_def)
  from h ne show "\<forall>parsed rb. Parse p' (lastAssistant (Messages rollout')) = Inr parsed \<and> rubric d = Some rb \<longrightarrow>
         DoubleCheck_Rollout d client w prompt answer =
           (case ComputeReward rb parsed answer of
              Inl err \<Rightarrow> Inr rollout'
            | Inr score \<Rightarrow> Inr (rollout'\<lparr>Score := score\<rparr>))"
    by (simp add: DoubleCheck_Rollout_def Let_def)
qed

theorem C2_witness:
  "Dialog_Rollout dialogEnv (sameReply ''<think>sum</think><answer>4</answer> DONE'') () question ''4'' =
     Inr \<lparr>Messages = [\<lparr>Role = ''user'', Content = ''What is 2 + 2?''\<rparr>,
                      \<lparr>Role = ''assistant'', Content = ''<think>sum</think><answer>4</answer> DONE''\<rparr>],
          Response = ''<think>sum</think><answer>4</answer> DONE'', Score = 1\<rparr> \<and>
   Dialog_Rollout (SetParser brokenParser dialogEnv)
     (sameReply ''<think>sum</think><answer>4</answer> DONE'') () question ''4'' =
     Inl (GoError ''failed to parse response: unparseable'') \<and>
   DoubleCheck_Rollout (SetParser brokenParser doubleCheckEnv)
     (sameReply ''<answer>4</answer>'') () question ''4'' =
     Inr \<lparr>Messages = [\<lparr>Role = ''user'', Content = ''What is 2 + 2?''\<rparr>,
                      \<lparr>Role = ''assistant'', Content = ''<answer>4</answer>''\<rparr>,
                      \<lparr>Role = ''user'', Content = ''Are you sure? Double-check your answer.''\<rparr>],
          Response = ''<answer>4</answer>'', Score = 0\<rparr>"
proof -
  let ?reply = "''<think>sum</think><answer>4</answer> DONE''"
  let ?r1 = "\<lparr>Messages = [\<lparr>Role = ''user'', Content = ''What is 2 + 2?''\<rparr>,
                      \<lparr>Role = ''assistant'', Content = ?reply\<rparr>],
          Response = ?reply, Score = 0\<rparr>"
  let ?r2 = "\<lparr>Messages = [\<lparr>Role = ''user'', Content = ''What is 2 + 2?''\<rparr>,
                      \<lparr>Role = ''assistant'', Content = ''<answer>4</answer>''\<rparr>,
                      \<lparr>Role = ''user'', Content = ''Are you sure? Double-check your answer.''\<rparr>],
          Response = ''<answer>4</answer>'', Score = 0\<rparr>"
  let ?d = "SetParser brokenParser doubleCheckEnv"
  have b1: "BaseMultiTurnRollout (Dialog_env dialogEnv) (sameReply ?reply) () question ''4''
      (MaxTurns dialogEnv) = Inr ?r1"
    by code_simp
  have b1': "BaseMultiTurnRollout (Dialog_env (SetParser brokenParser dialogEnv)) (sameReply ?reply) ()
      question ''4'' (MaxTurns (SetParser brokenParser dialogEnv)) = Inr ?r1"
    by code_simp
  have b2: "BaseMultiTurnRollout (DoubleCheck_env ?d) (sameReply ''<answer>4</answer>'') () question ''4''
      (MaxTurns ?d) = Inr ?r2"
    by code_simp
  have p1: "parser dialogEnv = Some (XMLParserValue thinkAnswerParser)"
    and rb: "rubric dialogEnv = Some (BaseRubric_Rubric NewBaseRubric)"
    and p1': "parser (SetParser brokenParser dialogEnv) = Some brokenParser"
    and p2: "parser ?d = Some brokenParser"
    by (simp_all add: dialogEnv_def doubleCheckEnv_def SetParser_def SetRubric_def)
  have parse1: "Parse (XMLParserValue thinkAnswerParser) ?reply = Inr ''4''"
    by code_simp
  have parse2: "Parse brokenParser s = Inl (GoError ''unparseable'')" for s
    by (simp add: brokenParser_def)
  have reward: "ComputeReward (BaseRubric_Rubric NewBaseRubric) ''4'' ''4'' = Inr 1"
    by code_simp
  have la: "lastAssistant (Messages ?r2) = ''<answer>4</answer>''"
    by code_simp
  note A = C2_rescoring[of dialogEnv "sameReply ?reply" "()" question "''4''" ?r1
      "XMLParserValue thinkAnswerParser" ?d ?r2 brokenParser]
  note B = C2_rescoring[of "SetParser brokenParser dialogEnv" "sameReply ?reply" "()" question "''4''" ?r1
      brokenParser ?d ?r2 brokenParser]
  note C = C2_rescoring[of dialogEnv "sameReply ''<answer>4</answer>''" "()" question "''4''" ?r1
      "XMLParserValue thinkAnswerParser" ?d ?r2 brokenParser]
  have 1: "Dialog_Rollout dialogEnv (sameReply ?reply) () question ''4'' = Inr (?r1\<lparr>Score := 1\<rparr>)"
    using A b1 p1 rb parse1 reward by simp
  have 2: "Dialog_Rollout (SetParser brokenParser dialogEnv) (sameReply ?reply) () question ''4'' =
      Inl (wrap ''failed to parse response: '' (GoError ''unparseable''))"
    using B b1' p1' parse2 by simp
  have 3: "DoubleCheck_Rollout ?d (sameReply ''<answer>4</answer>'') () question ''4'' = Inr ?r2"
    using C b2 p2 parse2 la by simp
  show ?thesis using 1 2 3 by simp
qed

text \<open>
  A double-check rollout whose parser fails is returned with the score 0 and without
  an error.
\<close>

theorem C2_counterexample:
  "case DoubleCheck_Rollout (SetParser brokenParser doubleCheckEnv)
          (sameReply ''<answer>4</answer>'') () question ''4'' of
     Inl err \<Rightarrow> False
   | Inr rollout \<Rightarrow>
       Score rollout = 0 \<and> Response rollout = ''<answer>4</answer>'' \<and>
       Parse brokenParser (Response rollout) = Inl (GoError ''unparseable'')"
  by code_simp

subsection \<open>The environment response of the SmolaAgents tool environment\<close>

text \<open>
  Whenever the last message is an assistant message with a non-empty tool field and the
  decoded call has no \<^verbatim>\<open>args\<close> member that is an object (in particular whenever the
  tool field does not decode), \<^verbatim>\<open>EnvResponse\<close> panics.
\<close>

lemma Smola_EnvResponse_panic:
  assumes "messages \<noteq> []" and "Role (last messages) = ''assistant''"
    and "ParseSmola unmarshal (SmolaParserOf e) (Content (last messages)) True = Inr (fs, decoded)"
    and "field fs ''tool'' \<noteq> []"
    and "\<forall>call args. unmarshal (field fs ''tool'') = Inr call \<longrightarrow>
           map_of call ''args'' \<noteq> Some (JObject args)"
  shows "\<exists>msg. Smola_EnvResponse unmarshal e messages state = Inl (GoPanic msg)"
proof (cases "unmarshal (field fs ''tool'')")
  case (Inl err)
  then show ?thesis
    using assms(1-4)
    by (auto simp: Smola_EnvResponse_def Let_def split: option.splits go_value.splits)
next
  case (Inr call)
  with assms(5) have "\<forall>args. map_of call ''args'' \<noteq> Some (JObject args)" by simp
  then show ?thesis
    using assms(1-4) Inr
    by (auto simp: Smola_EnvResponse_def Let_def split: option.splits go_value.splits json.splits)
qed

text \<open>
  C10.  The specification wants \<^verbatim>\<open>SmolaToolEnv.EnvResponse\<close> to return a message or an
  error for every assistant message with a non-empty tool field.  The code panics
  instead, in the unchecked type assertion on \<^verbatim>\<open>toolCall["args"]\<close>, for the tool field
  \<open>not json\<close>, which does not decode, and for the tool field \<open>{}\<close>, which decodes to
  an object without \<^verbatim>\<open>args\<close>.
\<close>

theorem C10_EnvResponse_panics:
  "(case Smola_EnvResponse emptyObjectOnly smolaEnv
           [\<lparr>Role = ''user'', Content = ''add 2 and 2''\<rparr>,
            \<lparr>Role = ''assistant'', Content = ''<tool>not json</tool>''\<rparr>]
           [''answer'' \<mapsto> VString ''4''] of
      Inl err \<Rightarrow>
        err = GoPanic ''interface conversion: interface {} is not map[string]interface {}''
    | Inr response \<Rightarrow> False) \<and>
   (case Smola_EnvResponse emptyObjectOnly smolaEnv
           [\<lparr>Role = ''user'', Content = ''add 2 and 2''\<rparr>,
            \<lparr>Role = ''assistant'', Content = ''<tool>{}</tool>''\<rparr>]
           [''answer'' \<mapsto> VString ''4''] of
      Inl err \<Rightarrow>
        err = GoPanic ''interface conversion: interface {} is not map[string]interface {}''
    | Inr response \<Rightarrow> False)"
  by code_simp

subsection \<open>The slots of a batch\<close>

lemma fold_update_nth:
  "set sched \<subseteq> {..<length xs} \<Longrightarrow> j < length xs \<Longrightarrow>
   length (fold (\<lambda>i r. r[i := f i]) sched xs) = length xs \<and>
   fold (\<lambda>i r. r[i := f i]) sched xs ! j = (if j \<in> set sched then f j else xs ! j)"
proof (induction sched arbitrary: xs)
  case Nil
  then show ?case by simp
next
  case (Cons i sched)
  then have "set sched \<subseteq> {..<length (xs[i := f i])}" "j < length (xs[i := f i])" "i < length xs"
    by auto
  from Cons.IH[OF this(1,2)] this(3) show ?case
    by (auto simp: nth_list_update)
qed

lemma Process_slots:
  assumes "complete_schedule (length items) (schedule run)"
  shows "length (Process processor zero run items) = length items"
    and "i < length items \<Longrightarrow>
         Process processor zero run items ! i = worker processor zero run i (items ! i)"
proof -
  let ?init = "replicate (length items) \<lparr>Index = 0, Result = zero, Error = None\<rparr>"
  let ?f = "\<lambda>index. worker processor zero run index (items ! index)"
  have s: "set (schedule run) \<subseteq> {..<length ?init}"
    using assms by (simp add: complete_schedule_def)
  show "length (Process processor zero run items) = length items"
  proof (cases "items = []")
    case True
    then have "schedule run = []" using assms by (simp add: complete_schedule_def)
    with True show ?thesis by (simp add: Process_def)
  next
    case False
    then have "0 < length ?init" by simp
    from fold_update_nth[OF s this, of ?f] show ?thesis by (simp add: Process_def)
  qed
  show "Process processor zero run items ! i = worker processor zero run i (items ! i)"
    if "i < length items"
  proof -
    have "i < length ?init" using that by simp
    moreover have "i \<in> set (schedule run)" using assms that by (simp add: complete_schedule_def)
    ultimately show ?thesis
      using fold_update_nth[OF s, of i ?f] by (simp add: Process_def)
  qed
qed

text \<open>
  C7.  For every input list and processor, in every run in which each worker writes
  its slot once, in whatever order, \<^verbatim>\<open>Process\<close> returns a slice of the length of the
  input whose slot \<open>i\<close> holds what the worker of item \<open>i\<close> reports: the result and
  the error of the processor for item \<open>i\<close>, or, when that worker found the context
  done before it acquired the semaphore, the context's error and the zero result.
  When no worker finds the context done and exactly one item's processor returns an
  error, exactly that item's slot has an error and every slot has the result of the
  processor.
\<close>

theorem C7_slots:
  assumes "complete_schedule (length items) (schedule run)"
  shows "length (Process processor zero run items) = length items \<and>
         (\<forall>i<length items.
            Process processor zero run items ! i = worker processor zero run i (items ! i)) \<and>
         ((\<forall>i<length items. selected run i = Acquired) \<longrightarrow>
          (\<forall>i<length items.
             Process processor zero run items ! i =
               \<lparr>Index = i, Result = fst (processor (itemCtx run i) (items ! i)),
                Error = snd (processor (itemCtx run i) (items ! i))\<rparr>) \<and>
          (\<forall>k<length items.
             (\<forall>i<length items. (snd (processor (itemCtx run i) (items ! i)) \<noteq> None) = (i = k)) \<longrightarrow>
             (\<forall>i<length items.
                (Error (Process processor zero run items ! i) \<noteq> None) = (i = k) \<and>
                Result (Process processor zero run items ! i) =
                  fst (processor (itemCtx run i) (items ! i)))))"
proof -
  note P = Process_slots[OF assms, where processor = processor and zero = zero]
  have acq: "Process processor zero run items ! i =
               \<lparr>Index = i, Result = fst (processor (itemCtx run i) (items ! i)),
                Error = snd (processor (itemCtx run i) (items ! i))\<rparr>"
    if "\<forall>i<length items. selected run i = Acquired" "i < length items" for i
    using that P(2)[of i] by (simp add: worker_def split: prod.splits)
  show ?thesis
    using P acq by simp
qed

theorem C7_witness:
  "Process failsOnOne 0 liveRun [1, 2] =
     [\<lparr>Index = 0, Result = 0, Error = Some (GoError ''boom'')\<rparr>,
      \<lparr>Index = 1, Result = 20, Error = None\<rparr>]"
proof -
  have cs: "complete_schedule (length [1, 2 :: nat]) (schedule liveRun)"
    by (auto simp: complete_schedule_def liveRun_def)
  have acq: "\<forall>i<length [1, 2 :: nat]. selected liveRun i = Acquired"
    by (simp add: liveRun_def selectAcquired_def)
  note T = C7_slots[OF cs, where processor = failsOnOne and zero = 0]
  have len: "length (Process failsOnOne 0 liveRun [1, 2]) = length [1, 2 :: nat]"
    using T by blast
  have slots: "\<forall>i<length [1, 2 :: nat]. Process failsOnOne 0 liveRun [1, 2] ! i =
       \<lparr>Index = i, Result = fst (failsOnOne (itemCtx liveRun i) ([1, 2] ! i)),
        Error = snd (failsOnOne (itemCtx liveRun i) ([1, 2] ! i))\<rparr>"
    using T acq by blast
  from slots have "Process failsOnOne 0 liveRun [1, 2] ! 0 =
       \<lparr>Index = 0, Result = 0, Error = Some (GoError ''boom'')\<rparr>"
    and "Process failsOnOne 0 liveRun [1, 2] ! 1 = \<lparr>Index = 1, Result = 20, Error = None\<rparr>"
    by (simp_all add: failsOnOne_def)
  with len show ?thesis
    by (auto simp: list_eq_iff_nth_eq less_Suc_eq numeral_2_eq_2)
qed

text \<open>
  When a worker finds the context cancelled, its slot has an error although the
  processor fails on no other item than the first: of two items, with the processor
  failing on the first and the second worker cancelled, both slots have an error and
  the second has the zero result, not the processor's result 20.
\<close>

theorem C7_counterexample:
  "failsOnOne () 1 = (0, Some (GoError ''boom'')) \<and> failsOnOne () 2 = (20, None) \<and>
   complete_schedule (length [1, 2 :: nat]) (schedule cancelledRun) \<and>
   Process failsOnOne 0 cancelledRun [1, 2] =
     [\<lparr>Index = 0, Result = 0, Error = Some (GoError ''boom'')\<rparr>,
      \<lparr>Index = 1, Result = 0, Error = Some (GoError ''context canceled'')\<rparr>]"
  by (auto simp: failsOnOne_def complete_schedule_def cancelledRun_def Process_def worker_def
      selectSecondDone_def unitCtx_def)

end
